theory Spec2Isabelle
  imports Complex_Main "HOL-Library.AList" "HOL-Library.Sublist"
begin

section \<open>Python values, exceptions and dictionaries\<close>

text \<open>
  The script \<^verbatim>\<open>step2_configurable_scan.py\<close> drives an OWASP ZAP daemon. Its
  exceptions fall into the three classes its handlers tell apart: subclasses of
  \<^verbatim>\<open>Exception\<close> (named by their class), \<^verbatim>\<open>KeyboardInterrupt\<close> and
  \<^verbatim>\<open>SystemExit\<close> with its code; the last two are not subclasses of
  \<^verbatim>\<open>Exception\<close>.
\<close>

datatype exn = Exception string | KeyboardInterrupt | SystemExit int

definition KeyError :: exn where
  "KeyError = Exception ''KeyError''"

definition ValueError :: exn where
  "ValueError = Exception ''ValueError''"

text \<open>Sequencing of computations that may raise.\<close>

definition ebind :: "exn + 'a \<Rightarrow> ('a \<Rightarrow> exn + 'b) \<Rightarrow> exn + 'b" where
  "ebind m f = (case m of Inl e \<Rightarrow> Inl e | Inr x \<Rightarrow> f x)"

text \<open>
  A Python \<^verbatim>\<open>dict\<close> with string keys is an association list in insertion order.
  \<^verbatim>\<open>d.get(k, default)\<close> never raises; \<^verbatim>\<open>d[k]\<close> raises \<^verbatim>\<open>KeyError\<close> on a
  missing key.
\<close>

definition dict_get :: "(string \<times> 'v) list \<Rightarrow> string \<Rightarrow> 'v \<Rightarrow> 'v" where
  "dict_get d k dflt = (case map_of d k of None \<Rightarrow> dflt | Some v \<Rightarrow> v)"

definition dict_index :: "(string \<times> 'v) list \<Rightarrow> string \<Rightarrow> exn + 'v" where
  "dict_index d k = (case map_of d k of None \<Rightarrow> Inl KeyError | Some v \<Rightarrow> Inr v)"

text \<open>
  Python's built-in \<^verbatim>\<open>int(s)\<close>, base 10, on a \<^verbatim>\<open>str\<close> whose code points are
  below 256; a character stands for the code point of its number. \<^verbatim>\<open>int\<close> skips
  white space at both ends: the ASCII white space 0x09 to 0x0D and 0x20, and the two
  other code points below 256 that Unicode counts as white space, 0x85 and 0xA0. The
  separators 0x1C to 0x1F, which \<^verbatim>\<open>str.strip\<close> would remove, are not skipped. One
  sign is allowed, then decimal digits, where single underscores may stand between
  digits; more than 4300 digits (the default of \<^verbatim>\<open>sys.get_int_max_str_digits\<close>,
  which the script leaves as it is) are refused. Anything else raises
  \<^verbatim>\<open>ValueError\<close>.
\<close>

definition is_space :: "char \<Rightarrow> bool" where
  "is_space c = (c \<in> set [CHR 0x09, CHR 0x0A, CHR 0x0B, CHR 0x0C, CHR 0x0D, CHR 0x20,
                              CHR 0x85, CHR 0xA0])"

definition trim_space :: "string \<Rightarrow> string" where
  "trim_space s = rev (dropWhile is_space (rev (dropWhile is_space s)))"

definition max_str_digits :: nat where
  "max_str_digits = 4300"

definition digit_val :: "char \<Rightarrow> nat option" where
  "digit_val c = map_of (zip ''0123456789'' [0, 1, 2, 3, 4, 5, 6, 7, 8, 9]) c"

fun parse_digits :: "string \<Rightarrow> nat \<Rightarrow> nat option" where
  "parse_digits [] acc = Some acc"
| "parse_digits [c] acc =
     (case digit_val c of None \<Rightarrow> None | Some v \<Rightarrow> Some (acc * 10 + v))"
| "parse_digits (c # d # ds) acc =
     (if c = CHR ''_''
      then (case digit_val d of None \<Rightarrow> None | Some v \<Rightarrow> parse_digits ds (acc * 10 + v))
      else (case digit_val c of None \<Rightarrow> None | Some v \<Rightarrow> parse_digits (d # ds) (acc * 10 + v)))"

definition parse_unsigned :: "string \<Rightarrow> nat option" where
  "parse_unsigned s =
     (case s of
        [] \<Rightarrow> None
      | c # cs \<Rightarrow> (case digit_val c of None \<Rightarrow> None | Some v \<Rightarrow> parse_digits cs v))"

definition py_int :: "string \<Rightarrow> exn + int" where
  "py_int s =
     (let t = trim_space s;
          neg = (case t of [] \<Rightarrow> False | c # _ \<Rightarrow> c = CHR ''-'');
          body = (case t of [] \<Rightarrow> [] | c # cs \<Rightarrow> if c = CHR ''-'' \<or> c = CHR ''+'' then cs else t)
      in if max_str_digits < length (filter (\<lambda>c. digit_val c \<noteq> None) body)
         then Inl ValueError
         else case parse_unsigned body of
                None \<Rightarrow> Inl ValueError
              | Some n \<Rightarrow> Inr (if neg then - int n else int n))"

section \<open>Configuration\<close>

text \<open>
  \<^verbatim>\<open>ScanConfig\<close>: the settings read from the environment (after \<^verbatim>\<open>load_dotenv\<close>),
  given here as \<open>getenv\<close>, the function \<^verbatim>\<open>os.getenv\<close> computes.
\<close>

record ScanConfig =
  target_url :: string
  scan_type :: string
  zap_host :: string
  zap_port :: int
  max_high :: int
  max_medium :: int
  max_low :: int
  report_dir :: string

text \<open>\<^verbatim>\<open>_get_required\<close>: a missing or empty value exits with code 2.\<close>

definition get_required :: "(string \<Rightarrow> string option) \<Rightarrow> string \<Rightarrow> exn + string" where
  "get_required getenv key =
     (case getenv key of
        None \<Rightarrow> Inl (SystemExit 2)
      | Some v \<Rightarrow> if v = [] then Inl (SystemExit 2) else Inr v)"

definition get_optional :: "(string \<Rightarrow> string option) \<Rightarrow> string \<Rightarrow> string \<Rightarrow> string" where
  "get_optional getenv key dflt = (case getenv key of None \<Rightarrow> dflt | Some v \<Rightarrow> v)"

text \<open>\<^verbatim>\<open>_validate\<close>: scan type, URL scheme, thresholds, in the source's order.\<close>

definition validate :: "ScanConfig \<Rightarrow> exn + unit" where
  "validate c =
     (if scan_type c \<notin> set [''quick'', ''standard'', ''full''] then Inl (SystemExit 2)
      else if \<not> (prefix ''http://'' (target_url c) \<or> prefix ''https://'' (target_url c))
        then Inl (SystemExit 2)
      else if max_high c < 0 \<or> max_medium c < 0 \<or> max_low c < 0 then Inl (SystemExit 2)
      else Inr ())"

text \<open>\<^verbatim>\<open>ScanConfig.__init__\<close>.\<close>

definition ScanConfig_init :: "(string \<Rightarrow> string option) \<Rightarrow> exn + ScanConfig" where
  "ScanConfig_init getenv =
     ebind (get_required getenv ''ZAP_TARGET_URL'') (\<lambda>url.
     ebind (py_int (get_optional getenv ''ZAP_PORT'' ''8080'')) (\<lambda>port.
     ebind (py_int (get_optional getenv ''ZAP_MAX_HIGH'' ''0'')) (\<lambda>mh.
     ebind (py_int (get_optional getenv ''ZAP_MAX_MEDIUM'' ''5'')) (\<lambda>mm.
     ebind (py_int (get_optional getenv ''ZAP_MAX_LOW'' ''999'')) (\<lambda>ml.
       (let c = \<lparr> target_url = url,
                   scan_type = get_optional getenv ''ZAP_SCAN_TYPE'' ''standard'',
                   zap_host = get_optional getenv ''ZAP_HOST'' ''localhost'',
                   zap_port = port,
                   max_high = mh, max_medium = mm, max_low = ml,
                   report_dir = get_optional getenv ''ZAP_REPORT_DIR'' ''./reports'' \<rparr>
        in ebind (validate c) (\<lambda>_. Inr c)))))))"

text \<open>\<^verbatim>\<open>ScanTypeConfig\<close>: the fixed table of scan-type profiles.\<close>

record profile =
  name :: string
  description :: string
  spider_max_depth :: int
  spider_max_duration :: int
  active_scan :: bool
  duration_estimate :: string

definition TYPES :: "(string \<times> profile) list" where
  "TYPES =
     [(''quick'', \<lparr> name = ''Quick Scan'', description = ''Fast surface-level scan'',
                   spider_max_depth = 1, spider_max_duration = 2, active_scan = False,
                   duration_estimate = ''~2 minutes'' \<rparr>),
      (''standard'', \<lparr> name = ''Standard Scan'',
                   description = ''Balanced scan for regular builds'',
                   spider_max_depth = 2, spider_max_duration = 5, active_scan = True,
                   duration_estimate = ''~10 minutes'' \<rparr>),
      (''full'', \<lparr> name = ''Full Scan'', description = ''Comprehensive security assessment'',
                   spider_max_depth = 0, spider_max_duration = 0, active_scan = True,
                   duration_estimate = ''30+ minutes'' \<rparr>)]"

definition ScanTypeConfig_get :: "string \<Rightarrow> exn + profile" where
  "ScanTypeConfig_get st = dict_index TYPES st"

section \<open>Risk aggregation and the threshold gate\<close>

text \<open>
  An alert is the dictionary ZAP reports for one finding (string keys, string values);
  \<^verbatim>\<open>risk_counts\<close> is the dictionary from bucket name to count.
\<close>

type_synonym alert = "(string \<times> string) list"

type_synonym risk_counts = "(string \<times> int) list"

text \<open>\<^verbatim>\<open>risk_counts[risk] += 1\<close>: reads the entry (\<^verbatim>\<open>KeyError\<close> when there is none),
  then stores it in place.\<close>

definition incr_count :: "risk_counts \<Rightarrow> string \<Rightarrow> exn + risk_counts" where
  "incr_count rc k =
     (case map_of rc k of
        None \<Rightarrow> Inl KeyError
      | Some n \<Rightarrow> Inr (AList.update k (n + 1) rc))"

fun count_loop :: "alert list \<Rightarrow> risk_counts \<Rightarrow> exn + risk_counts" where
  "count_loop [] rc = Inr rc"
| "count_loop (a # as) rc =
     (case incr_count rc (dict_get a ''risk'' ''Informational'') of
        Inl e \<Rightarrow> Inl e
      | Inr rc' \<Rightarrow> count_loop as rc')"

definition analyze_alerts :: "alert list \<Rightarrow> exn + risk_counts" where
  "analyze_alerts alerts =
     count_loop alerts [(''High'', 0), (''Medium'', 0), (''Low'', 0), (''Informational'', 0)]"

datatype colour = RED | YELLOW | BLUE

record threshold_check =
  check_level :: string
  check_count :: int
  check_max :: int
  check_passed :: bool
  check_color :: colour

definition check_thresholds ::
  "risk_counts \<Rightarrow> ScanConfig \<Rightarrow> exn + (bool \<times> threshold_check list)" where
  "check_thresholds rc config =
     ebind (dict_index rc ''High'') (\<lambda>h.
     ebind (dict_index rc ''Medium'') (\<lambda>m.
     ebind (dict_index rc ''Low'') (\<lambda>l.
       (let checks =
              [\<lparr> check_level = ''High'', check_count = h, check_max = max_high config,
                  check_passed = (h \<le> max_high config), check_color = RED \<rparr>,
               \<lparr> check_level = ''Medium'', check_count = m, check_max = max_medium config,
                  check_passed = (m \<le> max_medium config), check_color = YELLOW \<rparr>,
               \<lparr> check_level = ''Low'', check_count = l, check_max = max_low config,
                  check_passed = (l \<le> max_low config), check_color = BLUE \<rparr>]
        in Inr (list_all check_passed checks, checks)))))"

text \<open>
  \<^verbatim>\<open>display_results\<close> prints the summary and returns the gate's overall result.
  What it prints is not modelled; what it reads is, because a missing key raises: the
  four counts, the three fields of each of the first three high-risk alerts, and the
  threshold checks.
\<close>

definition is_high :: "alert \<Rightarrow> bool" where
  "is_high a = (map_of a ''risk'' = Some ''High'')"

fun efor :: "('a \<Rightarrow> exn + 'b) \<Rightarrow> 'a list \<Rightarrow> exn + 'b list" where
  "efor f [] = Inr []"
| "efor f (x # xs) = ebind (f x) (\<lambda>y. ebind (efor f xs) (\<lambda>ys. Inr (y # ys)))"

definition display_results :: "alert list \<Rightarrow> risk_counts \<Rightarrow> ScanConfig \<Rightarrow> exn + bool" where
  "display_results alerts rc config =
     ebind (dict_index rc ''High'') (\<lambda>_.
     ebind (dict_index rc ''Medium'') (\<lambda>_.
     ebind (dict_index rc ''Low'') (\<lambda>_.
     ebind (dict_index rc ''Informational'') (\<lambda>_.
     ebind (efor (\<lambda>a. ebind (dict_index a ''alert'') (\<lambda>_.
                         ebind (dict_index a ''url'') (\<lambda>_.
                         ebind (dict_index a ''description'') (\<lambda>d. Inr (take 100 d)))))
                 (take 3 (filter is_high alerts))) (\<lambda>_.
     ebind (check_thresholds rc config) (\<lambda>(all_passed, checks). Inr all_passed))))))"

section \<open>The run summary\<close>

record high_risk_entry =
  entry_name :: string
  entry_url :: string
  entry_description :: string

record summary =
  timestamp :: string
  summary_target_url :: string
  summary_scan_type :: string
  total_alerts :: nat
  risk_counts :: risk_counts
  thresholds :: "(string \<times> int) list"
  passed :: bool
  high_risk_alerts :: "high_risk_entry list"

text \<open>The dictionary \<^verbatim>\<open>summary\<close> that \<^verbatim>\<open>save_reports\<close> builds inside its third
  \<^verbatim>\<open>try\<close>.\<close>

definition build_summary ::
  "string \<Rightarrow> alert list \<Rightarrow> ScanConfig \<Rightarrow> risk_counts \<Rightarrow> bool \<Rightarrow> exn + summary" where
  "build_summary ts alerts config rc scan_passed =
     ebind (efor (\<lambda>a. ebind (dict_index a ''alert'') (\<lambda>n.
                         ebind (dict_index a ''url'') (\<lambda>u.
                         ebind (dict_index a ''description'') (\<lambda>d.
                           Inr \<lparr> entry_name = n, entry_url = u,
                                 entry_description = take 200 d \<rparr>))))
                 (filter is_high alerts)) (\<lambda>hs.
       Inr \<lparr> timestamp = ts,
             summary_target_url = target_url config,
             summary_scan_type = scan_type config,
             total_alerts = length alerts,
             risk_counts = rc,
             thresholds = [(''max_high'', max_high config),
                           (''max_medium'', max_medium config),
                           (''max_low'', max_low config)],
             passed = scan_passed,
             high_risk_alerts = hs \<rparr>)"

section \<open>The scanner, the clock and the file system\<close>

text \<open>
  Everything outside the script is an oracle: each external call is answered from the
  calls made so far. A call returns a value, raises a subclass of \<^verbatim>\<open>Exception\<close>
  (named by its class), or is cut short by the user's interrupt, which raises
  \<^verbatim>\<open>KeyboardInterrupt\<close> in the call (the script spends its time in these calls).
  The calls are recorded in order, with their arguments. A version request is recorded
  with host, port and timeout; a file write with directory, file name and content.
  What the script prints is not part of the model.

  The status texts of the scanner and the settings of the environment are strings, read
  with \<open>py_int\<close>; the clock gives rational seconds. The body of the HTTP response is
  what \<^verbatim>\<open>response.json()\<close> makes of it: a JSON object, or anything else (no JSON at
  all, or a JSON value without \<^verbatim>\<open>get\<close>).
\<close>

datatype json_body = NotJsonObject | JsonObject "(string \<times> string) list"

record http_response =
  status_code :: int
  json :: json_body

datatype file_content = HtmlFile string | AlertsFile "alert list" | SummaryFile summary

datatype call =
    VersionRequest string int int
  | Sleep int
  | Urlopen string
  | SpiderSetOptionMaxDepth int
  | SpiderScan string
  | SpiderStatus string
  | SpiderStop string
  | SpiderResults string
  | AscanScan string
  | AscanStatus string
  | CoreAlerts string
  | CoreHtmlreport
  | TimeTime
  | Mkdir string
  | DatetimeNow
  | WriteFile string string file_content

datatype 'a reply = Reply 'a | Fails string | Interrupted

record world =
  requests_get :: "call list \<Rightarrow> http_response reply"
  sleep :: "call list \<Rightarrow> unit reply"
  urlopen :: "call list \<Rightarrow> unit reply"
  spider_set_option_max_depth :: "call list \<Rightarrow> unit reply"
  spider_scan :: "call list \<Rightarrow> string reply"
  spider_status :: "call list \<Rightarrow> string reply"
  spider_stop :: "call list \<Rightarrow> unit reply"
  spider_results :: "call list \<Rightarrow> string list reply"
  ascan_scan :: "call list \<Rightarrow> string reply"
  ascan_status :: "call list \<Rightarrow> string reply"
  core_alerts :: "call list \<Rightarrow> alert list reply"
  core_htmlreport :: "call list \<Rightarrow> string reply"
  time_time :: "call list \<Rightarrow> rat reply"
  mkdir :: "call list \<Rightarrow> unit reply"
  datetime_now :: "call list \<Rightarrow> string reply"
  write_file :: "call list \<Rightarrow> unit reply"

text \<open>
  A piece of the script takes the calls made so far and gives them back extended,
  with how it ended: a value, an exception, or \<open>OutOfFuel\<close> when a polling loop has
  not finished within the iterations allowed.
\<close>

datatype 'a res = Returned 'a | Raised exn | OutOfFuel

type_synonym 'a prog = "call list \<Rightarrow> call list \<times> 'a res"

definition preturn :: "'a \<Rightarrow> 'a prog" where
  "preturn x tr = (tr, Returned x)"

definition throw :: "exn \<Rightarrow> 'a prog" where
  "throw e tr = (tr, Raised e)"

definition out_of_fuel :: "'a prog" where
  "out_of_fuel tr = (tr, OutOfFuel)"

definition pbind :: "'a prog \<Rightarrow> ('a \<Rightarrow> 'b prog) \<Rightarrow> 'b prog" where
  "pbind p f tr =
     (case p tr of
        (tr', Returned x) \<Rightarrow> f x tr'
      | (tr', Raised e) \<Rightarrow> (tr', Raised e)
      | (tr', OutOfFuel) \<Rightarrow> (tr', OutOfFuel))"

definition lift :: "exn + 'a \<Rightarrow> 'a prog" where
  "lift m tr = (case m of Inl e \<Rightarrow> (tr, Raised e) | Inr x \<Rightarrow> (tr, Returned x))"

definition perform :: "call \<Rightarrow> (call list \<Rightarrow> 'a reply) \<Rightarrow> 'a prog" where
  "perform c oracle tr =
     (tr @ [c],
      case oracle tr of
        Reply x \<Rightarrow> Returned x
      | Fails cls \<Rightarrow> Raised (Exception cls)
      | Interrupted \<Rightarrow> Raised KeyboardInterrupt)"

text \<open>\<^verbatim>\<open>try: p  except Exception: h\<close> catches the subclasses of \<^verbatim>\<open>Exception\<close>
  only.\<close>

definition try_except :: "'a prog \<Rightarrow> 'a prog \<Rightarrow> 'a prog" where
  "try_except p h tr =
     (case p tr of
        (tr', Raised (Exception cls)) \<Rightarrow> h tr'
      | r \<Rightarrow> r)"

text \<open>\<^verbatim>\<open>int(x)\<close> for a float \<^verbatim>\<open>x\<close> truncates towards zero.\<close>

definition py_trunc :: "rat \<Rightarrow> int" where
  "py_trunc x = (if x < 0 then \<lceil>x\<rceil> else \<lfloor>x\<rfloor>)"

section \<open>Step 1: the readiness poller\<close>

text \<open>
  \<^verbatim>\<open>wait_for_zap\<close>: \<open>wait_loop n\<close> is the \<^verbatim>\<open>for\<close> loop with \<open>n\<close> attempts left.
  The \<^verbatim>\<open>try\<close> block yields whether it executed \<^verbatim>\<open>return True\<close>;
  \<^verbatim>\<open>response.json()\<close> and \<^verbatim>\<open>version_data.get\<close> raise inside the block
  when the body is not a JSON object.
\<close>

definition attempt :: "world \<Rightarrow> ScanConfig \<Rightarrow> bool prog" where
  "attempt w config =
     try_except
       (pbind (perform (VersionRequest (zap_host config) (zap_port config) 5) (requests_get w))
          (\<lambda>response.
             if status_code response = 200
             then (case json response of
                     JsonObject version_data \<Rightarrow> preturn True
                   | NotJsonObject \<Rightarrow> throw ValueError)
             else preturn False))
       (preturn False)"

fun wait_loop :: "world \<Rightarrow> ScanConfig \<Rightarrow> nat \<Rightarrow> bool prog" where
  "wait_loop w config 0 = preturn False"
| "wait_loop w config (Suc n) =
     pbind (attempt w config) (\<lambda>ready.
       if ready then preturn True
       else pbind (perform (Sleep 2) (sleep w)) (\<lambda>_. wait_loop w config n))"

definition wait_for_zap :: "world \<Rightarrow> ScanConfig \<Rightarrow> bool prog" where
  "wait_for_zap w config = wait_loop w config 30"

section \<open>Steps 3 to 5: target access, crawl, active scan\<close>

definition access_target :: "world \<Rightarrow> ScanConfig \<Rightarrow> unit prog" where
  "access_target w config =
     pbind (perform (Urlopen (target_url config)) (urlopen w)) (\<lambda>_.
     perform (Sleep 2) (sleep w))"

text \<open>
  The crawl's polling loop, with \<open>fuel\<close> iterations allowed. Each iteration reads the
  status twice (the loop condition, then the progress it prints) and the clock once.
\<close>

fun spider_poll :: "world \<Rightarrow> string \<Rightarrow> rat \<Rightarrow> int \<Rightarrow> nat \<Rightarrow> unit prog" where
  "spider_poll w scan_id start_time max_duration 0 = out_of_fuel"
| "spider_poll w scan_id start_time max_duration (Suc fuel) =
     pbind (perform (SpiderStatus scan_id) (spider_status w)) (\<lambda>status.
     pbind (lift (py_int status)) (\<lambda>percent.
       if \<not> percent < 100 then preturn ()
       else
         pbind (perform (SpiderStatus scan_id) (spider_status w)) (\<lambda>progress.
         pbind (perform TimeTime (time_time w)) (\<lambda>t.
           (let elapsed = py_trunc (t - start_time) in
            if max_duration > 0 \<and> elapsed > max_duration
            then perform (SpiderStop scan_id) (spider_stop w)
            else pbind (perform (Sleep 2) (sleep w)) (\<lambda>_.
                   spider_poll w scan_id start_time max_duration fuel))))))"

definition run_spider_scan ::
  "world \<Rightarrow> ScanConfig \<Rightarrow> profile \<Rightarrow> nat \<Rightarrow> string list prog" where
  "run_spider_scan w config scan_type_config fuel =
     pbind (if spider_max_depth scan_type_config > 0
            then perform (SpiderSetOptionMaxDepth (spider_max_depth scan_type_config))
                   (spider_set_option_max_depth w)
            else preturn ()) (\<lambda>_.
     pbind (perform (SpiderScan (target_url config)) (spider_scan w)) (\<lambda>scan_id.
     pbind (perform TimeTime (time_time w)) (\<lambda>start_time.
     pbind (spider_poll w scan_id start_time (spider_max_duration scan_type_config * 60) fuel)
       (\<lambda>_.
     perform (SpiderResults scan_id) (spider_results w)))))"

text \<open>The active scan's polling loop; \<^verbatim>\<open>last_progress\<close> only steers printing.\<close>

fun ascan_poll :: "world \<Rightarrow> string \<Rightarrow> nat \<Rightarrow> unit prog" where
  "ascan_poll w scan_id 0 = out_of_fuel"
| "ascan_poll w scan_id (Suc fuel) =
     pbind (perform (AscanStatus scan_id) (ascan_status w)) (\<lambda>status.
     pbind (lift (py_int status)) (\<lambda>percent.
       if \<not> percent < 100 then preturn ()
       else
         pbind (perform (AscanStatus scan_id) (ascan_status w)) (\<lambda>status2.
         pbind (lift (py_int status2)) (\<lambda>progress.
         pbind (perform (Sleep 5) (sleep w)) (\<lambda>_.
           ascan_poll w scan_id fuel)))))"

definition run_active_scan :: "world \<Rightarrow> ScanConfig \<Rightarrow> profile \<Rightarrow> nat \<Rightarrow> unit prog" where
  "run_active_scan w config scan_type_config fuel =
     (if \<not> active_scan scan_type_config then preturn ()
      else pbind (perform (AscanScan (target_url config)) (ascan_scan w)) (\<lambda>scan_id.
             ascan_poll w scan_id fuel))"

section \<open>Steps 6 and 7: alerts and reports\<close>

definition get_alerts :: "world \<Rightarrow> ScanConfig \<Rightarrow> alert list prog" where
  "get_alerts w config = perform (CoreAlerts (target_url config)) (core_alerts w)"

text \<open>
  \<^verbatim>\<open>save_reports\<close>: the directory and the timestamp come first, outside any
  \<^verbatim>\<open>try\<close>; then three writes, each in a \<^verbatim>\<open>try\<close> of its own whose handler only
  prints.
\<close>

definition save_reports ::
  "world \<Rightarrow> alert list \<Rightarrow> ScanConfig \<Rightarrow> risk_counts \<Rightarrow> bool \<Rightarrow> unit prog" where
  "save_reports w alerts config rc scan_passed =
     pbind (perform (Mkdir (report_dir config)) (mkdir w)) (\<lambda>_.
     pbind (perform DatetimeNow (datetime_now w)) (\<lambda>ts.
     pbind (try_except
              (pbind (perform CoreHtmlreport (core_htmlreport w)) (\<lambda>html_report.
                 perform (WriteFile (report_dir config) (''zap_report_'' @ ts @ ''.html'')
                            (HtmlFile html_report)) (write_file w)))
              (preturn ())) (\<lambda>_.
     pbind (try_except
              (perform (WriteFile (report_dir config) (''zap_report_'' @ ts @ ''.json'')
                         (AlertsFile alerts)) (write_file w))
              (preturn ())) (\<lambda>_.
     try_except
       (pbind (lift (build_summary ts alerts config rc scan_passed)) (\<lambda>s.
          perform (WriteFile (report_dir config) (''zap_summary_'' @ ts @ ''.json'')
                     (SummaryFile s)) (write_file w)))
       (preturn ())))))"

section \<open>The main program\<close>

text \<open>
  The body of \<^verbatim>\<open>main\<close>'s \<^verbatim>\<open>try\<close>; \<^verbatim>\<open>sys.exit(c)\<close> raises
  \<^verbatim>\<open>SystemExit(c)\<close>. \<^verbatim>\<open>connect_to_zap\<close> only builds the client object and
  \<^verbatim>\<open>config.display\<close> only prints, so neither makes a call. The two polling loops
  are each allowed \<open>fuel\<close> iterations.
\<close>

definition main_try :: "(string \<Rightarrow> string option) \<Rightarrow> world \<Rightarrow> nat \<Rightarrow> unit prog" where
  "main_try getenv w fuel =
     pbind (lift (ScanConfig_init getenv)) (\<lambda>config.
     pbind (lift (ScanTypeConfig_get (scan_type config))) (\<lambda>scan_type_config.
     pbind (wait_for_zap w config) (\<lambda>ready.
       if \<not> ready then throw (SystemExit 2)
       else
         pbind (access_target w config) (\<lambda>_.
         pbind (run_spider_scan w config scan_type_config fuel) (\<lambda>urls.
         pbind (run_active_scan w config scan_type_config fuel) (\<lambda>_.
         pbind (get_alerts w config) (\<lambda>alerts.
         pbind (lift (analyze_alerts alerts)) (\<lambda>rc.
         pbind (lift (display_results alerts rc config)) (\<lambda>scan_passed.
         pbind (save_reports w alerts config rc scan_passed) (\<lambda>_.
           if scan_passed then throw (SystemExit 0) else throw (SystemExit 1)))))))))))"

text \<open>
  \<^verbatim>\<open>main\<close>: the two handlers turn an interrupt into exit code 130 and any other
  \<^verbatim>\<open>Exception\<close> into 2; a \<^verbatim>\<open>SystemExit\<close> passes both and ends the process with
  its code.
\<close>

datatype outcome = Exit int | StillRunning

definition main :: "(string \<Rightarrow> string option) \<Rightarrow> world \<Rightarrow> nat \<Rightarrow> call list \<times> outcome" where
  "main getenv w fuel =
     (case main_try getenv w fuel [] of
        (tr, Raised (SystemExit code)) \<Rightarrow> (tr, Exit code)
      | (tr, Raised KeyboardInterrupt) \<Rightarrow> (tr, Exit 130)
      | (tr, Raised (Exception cls)) \<Rightarrow> (tr, Exit 2)
      | (tr, Returned u) \<Rightarrow> (tr, Exit 0)
      | (tr, OutOfFuel) \<Rightarrow> (tr, StillRunning))"

section \<open>Notions used to state the properties\<close>

text \<open>
  The severity an alert is counted under, the four buckets, and the number of alerts of
  a list that fall into a bucket: the tally \<^verbatim>\<open>analyze_alerts\<close> is compared with.
\<close>

definition buckets :: "string list" where
  "buckets = [''High'', ''Medium'', ''Low'', ''Informational'']"

definition risk_of :: "alert \<Rightarrow> string" where
  "risk_of a = dict_get a ''risk'' ''Informational''"

definition bucket_count :: "string \<Rightarrow> alert list \<Rightarrow> int" where
  "bucket_count k alerts = int (length (filter (\<lambda>a. risk_of a = k) alerts))"

text \<open>
  \<open>only P p\<close>: from any calls made so far, \<open>p\<close> only appends calls, and every call
  it appends satisfies \<open>P\<close>. \<open>ends Q p\<close>: however \<open>p\<close> ends, \<open>Q\<close> holds of the way
  it ended. \<open>exits r\<close>: the piece ended by \<^verbatim>\<open>sys.exit\<close>.
\<close>

definition only :: "(call \<Rightarrow> bool) \<Rightarrow> 'a prog \<Rightarrow> bool" where
  "only P p = (\<forall>tr. \<exists>evs. fst (p tr) = tr @ evs \<and> list_all P evs)"

definition ends :: "('a res \<Rightarrow> bool) \<Rightarrow> 'a prog \<Rightarrow> bool" where
  "ends Q p = (\<forall>tr. Q (snd (p tr)))"

definition exits :: "'a res \<Rightarrow> bool" where
  "exits r = (\<exists>code. r = Raised (SystemExit code))"

text \<open>Kinds of calls.\<close>

definition version_request :: "ScanConfig \<Rightarrow> call" where
  "version_request config = VersionRequest (zap_host config) (zap_port config) 5"

definition is_version_request :: "call \<Rightarrow> bool" where
  "is_version_request c = (case c of VersionRequest h p t \<Rightarrow> True | _ \<Rightarrow> False)"

definition is_spider_stop :: "call \<Rightarrow> bool" where
  "is_spider_stop c = (case c of SpiderStop s \<Rightarrow> True | _ \<Rightarrow> False)"

definition is_set_depth :: "call \<Rightarrow> bool" where
  "is_set_depth c = (case c of SpiderSetOptionMaxDepth d \<Rightarrow> True | _ \<Rightarrow> False)"

definition is_ascan :: "call \<Rightarrow> bool" where
  "is_ascan c = (case c of AscanScan u \<Rightarrow> True | AscanStatus s \<Rightarrow> True | _ \<Rightarrow> False)"

definition is_write :: "call \<Rightarrow> bool" where
  "is_write c = (case c of WriteFile d f x \<Rightarrow> True | _ \<Rightarrow> False)"

definition no_summary :: "call \<Rightarrow> bool" where
  "no_summary c = (\<forall>d f s. c \<noteq> WriteFile d f (SummaryFile s))"



definition poll_round :: "string \<Rightarrow> call list" where
  "poll_round sid = [SpiderStatus sid, SpiderStatus sid, TimeTime, Sleep 2]"

definition rounds :: "string \<Rightarrow> nat \<Rightarrow> call list" where
  "rounds sid k = concat (replicate k (poll_round sid))"






section \<open>Sample runs\<close>

text \<open>
  The configuration the defaults give for the target \<^verbatim>\<open>http://target.example\<close>, the
  environment that sets the target and the scan type only, and two profiles of the table.
\<close>

definition default_config :: ScanConfig where
  "default_config =
     \<lparr> target_url = ''http://target.example'', scan_type = ''standard'',
       zap_host = ''localhost'', zap_port = 8080,
       max_high = 0, max_medium = 5, max_low = 999, report_dir = ''./reports'' \<rparr>"

definition env_of :: "string \<Rightarrow> string \<Rightarrow> string option" where
  "env_of st = map_of [(''ZAP_TARGET_URL'', ''http://target.example''), (''ZAP_SCAN_TYPE'', st)]"

definition quick_profile :: profile where
  "quick_profile = \<lparr> name = ''Quick Scan'', description = ''Fast surface-level scan'',
                   spider_max_depth = 1, spider_max_duration = 2, active_scan = False,
                   duration_estimate = ''~2 minutes'' \<rparr>"

definition full_profile :: profile where
  "full_profile = \<lparr> name = ''Full Scan'', description = ''Comprehensive security assessment'',
                   spider_max_depth = 0, spider_max_duration = 0, active_scan = True,
                   duration_estimate = ''30+ minutes'' \<rparr>"

text \<open>Alerts: two rated ones and one without a severity; one of high risk.\<close>

definition sample_alerts :: "alert list" where
  "sample_alerts =
     [[(''alert'', ''Missing header''), (''risk'', ''Low''),
       (''url'', ''http://target.example/''), (''description'', ''A header is missing'')],
      [(''alert'', ''Cookie flag''), (''risk'', ''Medium''),
       (''url'', ''http://target.example/a''), (''description'', ''No HttpOnly flag'')],
      [(''alert'', ''Odd finding''), (''url'', ''http://target.example/b'')]]"

definition high_alert :: alert where
  "high_alert = [(''alert'', ''SQL Injection''), (''risk'', ''High''),
                 (''url'', ''http://target.example/login''),
                 (''description'', ''The query is built from the request'')]"

text \<open>
  \<open>quiet_world\<close>: a scanner that is ready at the first request and has finished every
  job when first asked; the clock advances one second per call. The others differ from
  it in one respect each: the port refuses connections (\<open>down_world\<close>), refuses the
  first connection only (\<open>flaky_world\<close>), answers 200 with a body that is no JSON
  object (\<open>proxy_world\<close>); the alerts include one of high risk (\<open>risky_world\<close>); the
  user interrupts the first sleep (\<open>interrupted_world\<close>); the crawl stays at 40 percent
  while the clock advances 100 seconds per call (\<open>slow_world\<close>).
\<close>

definition quiet_world :: world where
  "quiet_world =
     \<lparr> requests_get =
         (\<lambda>tr. Reply \<lparr> status_code = 200, json = JsonObject [(''version'', ''2.14.0'')] \<rparr>),
       sleep = (\<lambda>tr. Reply ()),
       urlopen = (\<lambda>tr. Reply ()),
       spider_set_option_max_depth = (\<lambda>tr. Reply ()),
       spider_scan = (\<lambda>tr. Reply ''0''),
       spider_status = (\<lambda>tr. Reply ''100''),
       spider_stop = (\<lambda>tr. Reply ()),
       spider_results = (\<lambda>tr. Reply [''http://target.example/'']),
       ascan_scan = (\<lambda>tr. Reply ''1''),
       ascan_status = (\<lambda>tr. Reply ''100''),
       core_alerts = (\<lambda>tr. Reply sample_alerts),
       core_htmlreport = (\<lambda>tr. Reply ''<html></html>''),
       time_time = (\<lambda>tr. Reply (of_nat (length tr))),
       mkdir = (\<lambda>tr. Reply ()),
       datetime_now = (\<lambda>tr. Reply ''20240101_120000''),
       write_file = (\<lambda>tr. Reply ()) \<rparr>"

definition down_world :: world where
  "down_world = quiet_world \<lparr> requests_get := (\<lambda>tr. Fails ''ConnectionError'') \<rparr>"

definition flaky_world :: world where
  "flaky_world =
     quiet_world \<lparr> requests_get := (\<lambda>tr. if tr = [] then Fails ''ConnectionError''
        else Reply \<lparr> status_code = 200, json = JsonObject [(''version'', ''2.14.0'')] \<rparr>) \<rparr>"

definition proxy_world :: world where
  "proxy_world =
     quiet_world \<lparr> requests_get := (\<lambda>tr. Reply \<lparr> status_code = 200, json = NotJsonObject \<rparr>) \<rparr>"

definition risky_world :: world where
  "risky_world = quiet_world \<lparr> core_alerts := (\<lambda>tr. Reply (high_alert # sample_alerts)) \<rparr>"


definition slow_world :: world where
  "slow_world =
     quiet_world \<lparr> spider_status := (\<lambda>tr. Reply ''40''),
                   time_time := (\<lambda>tr. Reply (of_nat (100 * length tr))) \<rparr>"

text \<open>The summary of the standard run in \<open>quiet_world\<close>, and the calls of a quick run
  up to the crawl and up to its polling loop.\<close>

definition sample_summary :: summary where
  "sample_summary =
     \<lparr> timestamp = ''20240101_120000'',
       summary_target_url = ''http://target.example'',
       summary_scan_type = ''standard'',
       total_alerts = 3,
       risk_counts = [(''High'', 0), (''Medium'', 1), (''Low'', 1), (''Informational'', 1)],
       thresholds = [(''max_high'', 0), (''max_medium'', 5), (''max_low'', 999)],
       passed = True,
       high_risk_alerts = [] \<rparr>"

definition pre_crawl :: "call list" where
  "pre_crawl = [VersionRequest ''localhost'' 8080 5, Urlopen ''http://target.example'', Sleep 2]"






section \<open>Properties of the aggregator and the gate\<close>

lemma bucket_count_Nil: "bucket_count k [] = 0"
  by (simp add: bucket_count_def)

lemma bucket_count_Cons:
  "bucket_count k (a # as) = (if risk_of a = k then 1 else 0) + bucket_count k as"
  by (simp add: bucket_count_def)

lemma bucket_count_append:
  "bucket_count k (xs @ ys) = bucket_count k xs + bucket_count k ys"
  by (simp add: bucket_count_def)

lemma count_loop_ok:
  "\<forall>a\<in>set alerts. risk_of a \<in> set buckets \<Longrightarrow>
   count_loop alerts [(''High'', h), (''Medium'', m), (''Low'', l), (''Informational'', i)] =
   Inr [(''High'', h + bucket_count ''High'' alerts),
        (''Medium'', m + bucket_count ''Medium'' alerts),
        (''Low'', l + bucket_count ''Low'' alerts),
        (''Informational'', i + bucket_count ''Informational'' alerts)]"
proof (induction alerts arbitrary: h m l i)
  case Nil
  show ?case by (simp add: bucket_count_Nil)
next
  case (Cons a as)
  from Cons.prems have r: "risk_of a \<in> set buckets" and rest: "\<forall>a\<in>set as. risk_of a \<in> set buckets"
    by simp_all
  from r consider "risk_of a = ''High''" | "risk_of a = ''Medium''" | "risk_of a = ''Low''"
    | "risk_of a = ''Informational''"
    by (auto simp: buckets_def)
  then show ?case
  proof cases
    case 1
    then show ?thesis
      using Cons.IH [OF rest, of "h + 1" m l i]
      by (simp add: incr_count_def bucket_count_Cons risk_of_def [symmetric])
  next
    case 2
    then show ?thesis
      using Cons.IH [OF rest, of h "m + 1" l i]
      by (simp add: incr_count_def bucket_count_Cons risk_of_def [symmetric])
  next
    case 3
    then show ?thesis
      using Cons.IH [OF rest, of h m "l + 1" i]
      by (simp add: incr_count_def bucket_count_Cons risk_of_def [symmetric])
  next
    case 4
    then show ?thesis
      using Cons.IH [OF rest, of h m l "i + 1"]
      by (simp add: incr_count_def bucket_count_Cons risk_of_def [symmetric])
  qed
qed

lemma count_loop_bad:
  "\<exists>a\<in>set alerts. risk_of a \<notin> set buckets \<Longrightarrow>
   count_loop alerts [(''High'', h), (''Medium'', m), (''Low'', l), (''Informational'', i)] =
   Inl KeyError"
proof (induction alerts arbitrary: h m l i)
  case Nil
  then show ?case by simp
next
  case (Cons a as)
  show ?case
  proof (cases "risk_of a \<in> set buckets")
    case False
    then show ?thesis
      by (simp add: incr_count_def buckets_def risk_of_def [symmetric])
  next
    case True
    with Cons.prems have rest: "\<exists>a\<in>set as. risk_of a \<notin> set buckets" by auto
    from True consider "risk_of a = ''High''" | "risk_of a = ''Medium''" | "risk_of a = ''Low''"
      | "risk_of a = ''Informational''"
      by (auto simp: buckets_def)
    then show ?thesis
      by cases (simp_all add: incr_count_def risk_of_def [symmetric] Cons.IH [OF rest])
  qed
qed

lemma analyze_alerts_char:
  "analyze_alerts alerts =
     (if \<forall>a\<in>set alerts. risk_of a \<in> set buckets
      then Inr [(''High'', bucket_count ''High'' alerts),
                (''Medium'', bucket_count ''Medium'' alerts),
                (''Low'', bucket_count ''Low'' alerts),
                (''Informational'', bucket_count ''Informational'' alerts)]
      else Inl KeyError)"
  using count_loop_ok [of alerts 0 0 0 0] count_loop_bad [of alerts 0 0 0 0]
  by (auto simp: analyze_alerts_def)

lemma bucket_count_total:
  "\<forall>a\<in>set alerts. risk_of a \<in> set buckets \<Longrightarrow>
   bucket_count ''High'' alerts + bucket_count ''Medium'' alerts + bucket_count ''Low'' alerts
     + bucket_count ''Informational'' alerts = int (length alerts)"
proof (induction alerts)
  case Nil
  show ?case by (simp add: bucket_count_Nil)
next
  case (Cons a as)
  then show ?case
    by (auto simp: bucket_count_Cons buckets_def)
qed

text \<open>
  Claim C1. For risk counts that hold the three gated buckets, \<^verbatim>\<open>check_thresholds\<close>
  returns one check per bucket, High, Medium and Low in this order, each passing exactly
  when the observed count is at most the configured maximum, and the overall result is
  the conjunction of the three comparisons: it is false as soon as one bucket exceeds
  its maximum. The two scenarios of the specification are the instances of the witness.
\<close>

theorem check_thresholds_gate:
  assumes "map_of rc ''High'' = Some h"
    and "map_of rc ''Medium'' = Some m"
    and "map_of rc ''Low'' = Some l"
  shows "check_thresholds rc config =
     Inr (h \<le> max_high config \<and> m \<le> max_medium config \<and> l \<le> max_low config,
          [\<lparr> check_level = ''High'', check_count = h, check_max = max_high config,
              check_passed = (h \<le> max_high config), check_color = RED \<rparr>,
           \<lparr> check_level = ''Medium'', check_count = m, check_max = max_medium config,
              check_passed = (m \<le> max_medium config), check_color = YELLOW \<rparr>,
           \<lparr> check_level = ''Low'', check_count = l, check_max = max_low config,
              check_passed = (l \<le> max_low config), check_color = BLUE \<rparr>])"
  using assms by (simp add: check_thresholds_def ebind_def dict_index_def)

theorem check_thresholds_gate_witness:
  "fst (projr (check_thresholds
      [(''High'', 0), (''Medium'', 3), (''Low'', 10), (''Informational'', 7)] default_config))
   = True \<and>
   fst (projr (check_thresholds
      [(''High'', 1), (''Medium'', 0), (''Low'', 0), (''Informational'', 0)] default_config))
   = False"
  using check_thresholds_gate [of "[(''High'', 0), (''Medium'', 3), (''Low'', 10), (''Informational'', 7)]" 0 3 10 default_config]
    check_thresholds_gate [of "[(''High'', 1), (''Medium'', 0), (''Low'', 0), (''Informational'', 0)]" 1 0 0 default_config]
  by (simp add: default_config_def)

text \<open>
  Claim C2. The aggregator is a function of the alert list, but it is not total: a
  severity outside the four buckets makes \<^verbatim>\<open>risk_counts[risk] += 1\<close> raise
  \<^verbatim>\<open>KeyError\<close>.
\<close>

theorem analyze_alerts_unknown_severity:
  "analyze_alerts [[(''alert'', ''SQL Injection''), (''risk'', ''Critical'')]] = Inl KeyError"
  by (simp add: analyze_alerts_def incr_count_def dict_get_def)

text \<open>
  Claim C2, amended. \<^verbatim>\<open>analyze_alerts\<close> succeeds exactly when every severity that is
  present is one of the four buckets; it then returns the dictionary over exactly High,
  Medium, Low and Informational, in this order, each bucket holding the number of alerts
  of that severity, an alert without severity counting as Informational. Otherwise it
  raises \<^verbatim>\<open>KeyError\<close>.
\<close>

theorem analyze_alerts_buckets:
  "analyze_alerts alerts =
     (if \<forall>a\<in>set alerts. \<forall>r. map_of a ''risk'' = Some r \<longrightarrow> r \<in> set buckets
      then Inr [(''High'', bucket_count ''High'' alerts),
                (''Medium'', bucket_count ''Medium'' alerts),
                (''Low'', bucket_count ''Low'' alerts),
                (''Informational'', bucket_count ''Informational'' alerts)]
      else Inl KeyError)"
proof -
  have "(\<forall>r. map_of a ''risk'' = Some r \<longrightarrow> r \<in> set buckets) \<longleftrightarrow> risk_of a \<in> set buckets" for a
    by (cases "map_of a ''risk''") (simp_all add: risk_of_def dict_get_def buckets_def)
  then show ?thesis
    by (simp add: analyze_alerts_char)
qed

theorem analyze_alerts_buckets_witness:
  "analyze_alerts [[(''risk'', ''High'')], [(''alert'', ''Odd finding'')], [(''risk'', ''High'')]] =
     Inr [(''High'', 2), (''Medium'', 0), (''Low'', 0), (''Informational'', 1)]"
  using analyze_alerts_buckets [of "[[(''risk'', ''High'')], [(''alert'', ''Odd finding'')], [(''risk'', ''High'')]]"]
  by (simp add: buckets_def bucket_count_def risk_of_def dict_get_def)

text \<open>
  Claim C10. When every severity that is present is one of the four buckets, the four
  counts add up to the number of alerts.
\<close>

theorem analyze_alerts_sum:
  assumes "\<forall>a\<in>set alerts. \<forall>r. map_of a ''risk'' = Some r \<longrightarrow> r \<in> set buckets"
  shows "\<exists>h m l i. analyze_alerts alerts =
           Inr [(''High'', h), (''Medium'', m), (''Low'', l), (''Informational'', i)] \<and>
         h + m + l + i = int (length alerts)"
proof -
  have ok: "\<forall>a\<in>set alerts. risk_of a \<in> set buckets"
  proof
    fix a assume "a \<in> set alerts"
    with assms have "\<forall>r. map_of a ''risk'' = Some r \<longrightarrow> r \<in> set buckets" by blast
    then show "risk_of a \<in> set buckets"
      by (cases "map_of a ''risk''") (simp_all add: risk_of_def dict_get_def buckets_def)
  qed
  show ?thesis
    using bucket_count_total [OF ok] ok by (simp add: analyze_alerts_char)
qed

theorem analyze_alerts_sum_witness:
  "\<exists>h m l i. analyze_alerts [[(''risk'', ''High'')], [(''alert'', ''Odd finding'')], [(''risk'', ''Low'')]] =
           Inr [(''High'', h), (''Medium'', m), (''Low'', l), (''Informational'', i)] \<and>
         h + m + l + i = 3"
  using analyze_alerts_sum [of "[[(''risk'', ''High'')], [(''alert'', ''Odd finding'')], [(''risk'', ''Low'')]]"]
  by (simp add: buckets_def)

lemma analyze_alerts_insert_unrated:
  assumes "map_of a ''risk'' = None"
  shows "analyze_alerts (xs @ a # ys) =
         ebind (analyze_alerts (xs @ ys)) (\<lambda>rc. incr_count rc ''Informational'')"
proof -
  have ra: "risk_of a = ''Informational''"
    using assms by (simp add: risk_of_def dict_get_def)
  have valid: "(\<forall>b\<in>set (xs @ a # ys). risk_of b \<in> set buckets) \<longleftrightarrow>
               (\<forall>b\<in>set (xs @ ys). risk_of b \<in> set buckets)"
    using ra by (auto simp: buckets_def)
  show ?thesis
  proof (cases "\<forall>b\<in>set (xs @ ys). risk_of b \<in> set buckets")
    case True
    with valid have True': "\<forall>b\<in>set (xs @ a # ys). risk_of b \<in> set buckets"
      by blast
    show ?thesis
      unfolding analyze_alerts_char if_P [OF True] if_P [OF True']
      by (simp add: ebind_def incr_count_def bucket_count_append bucket_count_Cons ra)
  next
    case False
    with valid have False': "\<not> (\<forall>b\<in>set (xs @ a # ys). risk_of b \<in> set buckets)"
      by blast
    show ?thesis
      unfolding analyze_alerts_char if_not_P [OF False] if_not_P [OF False']
      by (simp add: ebind_def)
  qed
qed

lemma check_thresholds_cong:
  assumes "map_of rc1 ''High'' = map_of rc2 ''High''"
    and "map_of rc1 ''Medium'' = map_of rc2 ''Medium''"
    and "map_of rc1 ''Low'' = map_of rc2 ''Low''"
  shows "check_thresholds rc1 config = check_thresholds rc2 config"
  using assms by (simp add: check_thresholds_def dict_index_def)

text \<open>
  Claim C3. An alert without a severity field, wherever it stands in the list, adds one
  to the Informational bucket and nothing else, and it leaves the gate's answer as it
  was; and the gate gives the same answer (overall result and checks) on any two risk
  counts that agree on High, Medium and Low.
\<close>

theorem informational_not_gated:
  "(map_of a ''risk'' = None \<longrightarrow>
      analyze_alerts (xs @ a # ys) =
        ebind (analyze_alerts (xs @ ys)) (\<lambda>rc. incr_count rc ''Informational'') \<and>
      (\<forall>rc. analyze_alerts (xs @ a # ys) = Inr rc \<longrightarrow>
         (\<exists>rc'. analyze_alerts (xs @ ys) = Inr rc' \<and>
                check_thresholds rc config = check_thresholds rc' config))) \<and>
   (map_of rc1 ''High'' = map_of rc2 ''High'' \<and>
    map_of rc1 ''Medium'' = map_of rc2 ''Medium'' \<and>
    map_of rc1 ''Low'' = map_of rc2 ''Low'' \<longrightarrow>
      check_thresholds rc1 config = check_thresholds rc2 config)"
proof (intro conjI impI allI)
  assume a: "map_of a ''risk'' = None"
  show eq: "analyze_alerts (xs @ a # ys) =
        ebind (analyze_alerts (xs @ ys)) (\<lambda>rc. incr_count rc ''Informational'')"
    by (rule analyze_alerts_insert_unrated [OF a])
  fix rc assume rc: "analyze_alerts (xs @ a # ys) = Inr rc"
  with eq obtain rc' where rc': "analyze_alerts (xs @ ys) = Inr rc'"
    and inc: "incr_count rc' ''Informational'' = Inr rc"
    by (cases "analyze_alerts (xs @ ys)") (auto simp: ebind_def)
  from inc obtain n where "rc = AList.update ''Informational'' (n + 1) rc'"
    by (auto simp: incr_count_def split: option.splits)
  then have "check_thresholds rc config = check_thresholds rc' config"
    by (intro check_thresholds_cong) (simp_all add: update_conv')
  with rc' show "\<exists>rc'. analyze_alerts (xs @ ys) = Inr rc' \<and>
                check_thresholds rc config = check_thresholds rc' config"
    by blast
next
  assume "map_of rc1 ''High'' = map_of rc2 ''High'' \<and>
    map_of rc1 ''Medium'' = map_of rc2 ''Medium'' \<and>
    map_of rc1 ''Low'' = map_of rc2 ''Low''"
  then show "check_thresholds rc1 config = check_thresholds rc2 config"
    by (intro check_thresholds_cong) simp_all
qed

theorem informational_not_gated_witness:
  "analyze_alerts [[(''risk'', ''High'')], [(''alert'', ''Odd finding'')], [(''risk'', ''Low'')]] =
     Inr [(''High'', 1), (''Medium'', 0), (''Low'', 1), (''Informational'', 1)] \<and>
   analyze_alerts [[(''risk'', ''High'')], [(''risk'', ''Low'')]] =
     Inr [(''High'', 1), (''Medium'', 0), (''Low'', 1), (''Informational'', 0)] \<and>
   check_thresholds [(''High'', 0), (''Medium'', 3), (''Low'', 10), (''Informational'', 0)] default_config =
   check_thresholds [(''High'', 0), (''Medium'', 3), (''Low'', 10), (''Informational'', 5000)] default_config"
proof -
  let ?a = "[(''alert'', ''Odd finding'')] :: alert"
  let ?xs = "[[(''risk'', ''High'')]] :: alert list"
  let ?ys = "[[(''risk'', ''Low'')]] :: alert list"
  have none: "map_of ?a ''risk'' = None" by simp
  have rest: "analyze_alerts (?xs @ ?ys) =
     Inr [(''High'', 1), (''Medium'', 0), (''Low'', 1), (''Informational'', 0)]"
    by (simp add: analyze_alerts_def incr_count_def dict_get_def)
  from informational_not_gated [of ?a ?xs ?ys default_config
      "[(''High'', 0), (''Medium'', 3), (''Low'', 10), (''Informational'', 0)]"
      "[(''High'', 0), (''Medium'', 3), (''Low'', 10), (''Informational'', 5000)]"]
  have "analyze_alerts (?xs @ ?a # ?ys) =
        ebind (analyze_alerts (?xs @ ?ys)) (\<lambda>rc. incr_count rc ''Informational'')"
    and "check_thresholds [(''High'', 0), (''Medium'', 3), (''Low'', 10), (''Informational'', 0)] default_config =
   check_thresholds [(''High'', 0), (''Medium'', 3), (''Low'', 10), (''Informational'', 5000)] default_config"
    using none by simp_all
  with rest show ?thesis
    by (simp add: ebind_def incr_count_def)
qed

section \<open>How the pieces run\<close>

lemma onlyI: "(\<And>tr. \<exists>evs. fst (p tr) = tr @ evs \<and> list_all P evs) \<Longrightarrow> only P p"
  by (simp add: only_def)

lemma onlyD: "only P p \<Longrightarrow> \<exists>evs. fst (p tr) = tr @ evs \<and> list_all P evs"
  by (simp add: only_def)

lemma only_preturn: "only P (preturn x)"
  by (simp add: only_def preturn_def)

lemma only_throw: "only P (throw e)"
  by (simp add: only_def throw_def)

lemma only_out_of_fuel: "only P out_of_fuel"
  by (simp add: only_def out_of_fuel_def)

lemma only_lift: "only P (lift m)"
  by (cases m) (simp_all add: only_def lift_def)

lemma only_perform: "P c \<Longrightarrow> only P (perform c oracle)"
  by (simp add: only_def perform_def)

lemma only_pbind:
  assumes p: "only P p"
    and f: "\<And>x tr tr'. p tr = (tr', Returned x) \<Longrightarrow> only P (f x)"
  shows "only P (pbind p f)"
proof (rule onlyI)
  fix tr
  obtain tr' r where ptr: "p tr = (tr', r)" by (cases "p tr")
  from onlyD [OF p, of tr] ptr obtain evs where evs: "tr' = tr @ evs" "list_all P evs"
    by auto
  show "\<exists>evs. fst (pbind p f tr) = tr @ evs \<and> list_all P evs"
  proof (cases r)
    case (Returned x)
    from onlyD [OF f [OF ptr [unfolded Returned]], of tr'] obtain evs'
      where "fst (f x tr') = tr' @ evs'" "list_all P evs'" by auto
    with evs ptr Returned show ?thesis
      by (auto simp: pbind_def intro!: exI [of _ "evs @ evs'"])
  next
    case (Raised e)
    with evs ptr show ?thesis by (auto simp: pbind_def)
  next
    case OutOfFuel
    with evs ptr show ?thesis by (auto simp: pbind_def)
  qed
qed

lemma only_try_except:
  assumes p: "only P p" and h: "only P h"
  shows "only P (try_except p h)"
proof (rule onlyI)
  fix tr
  obtain tr' r where ptr: "p tr = (tr', r)" by (cases "p tr")
  from onlyD [OF p, of tr] ptr obtain evs where evs: "tr' = tr @ evs" "list_all P evs"
    by auto
  from onlyD [OF h, of tr'] obtain evs' where evs': "fst (h tr') = tr' @ evs'" "list_all P evs'"
    by auto
  show "\<exists>evs. fst (try_except p h tr) = tr @ evs \<and> list_all P evs"
  proof (cases "\<exists>cls. r = Raised (Exception cls)")
    case True
    with evs evs' ptr show ?thesis
      by (auto simp: try_except_def intro!: exI [of _ "evs @ evs'"])
  next
    case False
    with evs ptr show ?thesis
      by (auto simp: try_except_def split: res.splits exn.splits)
  qed
qed

lemma only_if: "(c \<Longrightarrow> only P p) \<Longrightarrow> (\<not> c \<Longrightarrow> only P q) \<Longrightarrow> only P (if c then p else q)"
  by simp

lemmas only_intros = only_preturn only_throw only_out_of_fuel only_lift only_pbind
  only_try_except only_if

lemma only_attempt:
  "P (VersionRequest (zap_host config) (zap_port config) 5) \<Longrightarrow> only P (attempt w config)"
  unfolding attempt_def
  by (intro only_intros only_perform) (auto split: json_body.splits intro: only_intros)

lemma only_wait_loop:
  "P (VersionRequest (zap_host config) (zap_port config) 5) \<Longrightarrow> P (Sleep 2) \<Longrightarrow>
   only P (wait_loop w config n)"
  by (induction n) (auto intro!: only_intros only_perform only_attempt)

lemma only_spider_poll:
  assumes "P (SpiderStatus sid)" "P TimeTime" "P (Sleep 2)" "0 < md \<Longrightarrow> P (SpiderStop sid)"
  shows "only P (spider_poll w sid st md fuel)"
  using assms
  by (induction fuel) (auto simp: Let_def intro!: only_intros only_perform)

lemma only_ascan_poll:
  assumes "P (AscanStatus sid)" "P (Sleep 5)"
  shows "only P (ascan_poll w sid fuel)"
  using assms
  by (induction fuel) (auto intro!: only_intros only_perform)

lemma only_wait_for_zap:
  "P (VersionRequest (zap_host config) (zap_port config) 5) \<Longrightarrow> P (Sleep 2) \<Longrightarrow>
   only P (wait_for_zap w config)"
  unfolding wait_for_zap_def by (rule only_wait_loop)

lemma only_access_target:
  "P (Urlopen (target_url config)) \<Longrightarrow> P (Sleep 2) \<Longrightarrow> only P (access_target w config)"
  unfolding access_target_def by (intro only_intros only_perform)

lemma only_run_spider_scan:
  assumes "0 < spider_max_depth p \<Longrightarrow> P (SpiderSetOptionMaxDepth (spider_max_depth p))"
    and "P (SpiderScan (target_url config))" and "P TimeTime" and "P (Sleep 2)"
    and "\<And>sid. P (SpiderStatus sid)" and "\<And>sid. P (SpiderResults sid)"
    and "\<And>sid. 0 < spider_max_duration p \<Longrightarrow> P (SpiderStop sid)"
  shows "only P (run_spider_scan w config p fuel)"
  unfolding run_spider_scan_def
  by (intro only_intros only_perform only_spider_poll assms) simp_all

lemma only_run_active_scan:
  assumes "active_scan p \<Longrightarrow> P (AscanScan (target_url config))"
    and "\<And>sid. active_scan p \<Longrightarrow> P (AscanStatus sid)"
    and "active_scan p \<Longrightarrow> P (Sleep 5)"
  shows "only P (run_active_scan w config p fuel)"
  unfolding run_active_scan_def
  by (intro only_intros only_perform only_ascan_poll assms) simp_all

lemma only_get_alerts: "P (CoreAlerts (target_url config)) \<Longrightarrow> only P (get_alerts w config)"
  unfolding get_alerts_def by (rule only_perform)

lemma lift_Returned: "lift m tr = (tr', Returned x) \<Longrightarrow> m = Inr x"
  by (cases m) (simp_all add: lift_def)

lemma only_save_reports:
  assumes "P (Mkdir (report_dir config))" and "P DatetimeNow" and "P CoreHtmlreport"
    and "\<And>ts h. P (WriteFile (report_dir config) (''zap_report_'' @ ts @ ''.html'') (HtmlFile h))"
    and "\<And>ts. P (WriteFile (report_dir config) (''zap_report_'' @ ts @ ''.json'') (AlertsFile alerts))"
    and "\<And>ts s. build_summary ts alerts config rc scan_passed = Inr s \<Longrightarrow>
           P (WriteFile (report_dir config) (''zap_summary_'' @ ts @ ''.json'') (SummaryFile s))"
  shows "only P (save_reports w alerts config rc scan_passed)"
  unfolding save_reports_def
  by (intro only_intros only_perform assms) (erule lift_Returned)

section \<open>How the pieces end\<close>

lemma endsI: "(\<And>tr. Q (snd (p tr))) \<Longrightarrow> ends Q p"
  by (simp add: ends_def)

lemma endsD: "ends Q p \<Longrightarrow> p tr = (tr', r) \<Longrightarrow> Q r"
  by (auto simp: ends_def dest: spec [of _ tr])

lemma ends_preturn: "Q (Returned x) \<Longrightarrow> ends Q (preturn x)"
  by (simp add: ends_def preturn_def)

lemma ends_throw: "Q (Raised e) \<Longrightarrow> ends Q (throw e)"
  by (simp add: ends_def throw_def)

lemma ends_out_of_fuel: "Q OutOfFuel \<Longrightarrow> ends Q out_of_fuel"
  by (simp add: ends_def out_of_fuel_def)

lemma ends_lift:
  "(\<And>e. m = Inl e \<Longrightarrow> Q (Raised e)) \<Longrightarrow> (\<And>x. m = Inr x \<Longrightarrow> Q (Returned x)) \<Longrightarrow> ends Q (lift m)"
  by (cases m) (simp_all add: ends_def lift_def)

lemma ends_perform:
  "(\<And>x. Q (Returned x)) \<Longrightarrow> (\<And>cls. Q (Raised (Exception cls))) \<Longrightarrow>
   Q (Raised KeyboardInterrupt) \<Longrightarrow> ends Q (perform c oracle)"
  by (simp add: ends_def perform_def split: reply.splits)

lemma ends_pbind:
  assumes p: "ends Q1 p"
    and e: "\<And>e. Q1 (Raised e) \<Longrightarrow> Q (Raised e)"
    and d: "Q1 OutOfFuel \<Longrightarrow> Q OutOfFuel"
    and f: "\<And>x tr tr'. p tr = (tr', Returned x) \<Longrightarrow> ends Q (f x)"
  shows "ends Q (pbind p f)"
proof (rule endsI)
  fix tr
  obtain tr' r where ptr: "p tr = (tr', r)" by (cases "p tr")
  have q1: "Q1 r" by (rule endsD [OF p ptr])
  show "Q (snd (pbind p f tr))"
  proof (cases r)
    case (Returned x)
    with f [OF ptr [unfolded Returned]] ptr show ?thesis
      by (simp add: pbind_def ends_def)
  next
    case (Raised x)
    with e q1 ptr show ?thesis by (simp add: pbind_def)
  next
    case OutOfFuel
    with d q1 ptr show ?thesis by (simp add: pbind_def)
  qed
qed

lemma ends_try_except:
  assumes p: "ends Q1 p" and h: "ends Q h"
    and r: "\<And>r. Q1 r \<Longrightarrow> (\<forall>cls. r \<noteq> Raised (Exception cls)) \<Longrightarrow> Q r"
  shows "ends Q (try_except p h)"
proof (rule endsI)
  fix tr
  obtain tr' r where ptr: "p tr = (tr', r)" by (cases "p tr")
  have q1: "Q1 r" by (rule endsD [OF p ptr])
  show "Q (snd (try_except p h tr))"
  proof (cases "\<exists>cls. r = Raised (Exception cls)")
    case True
    with h ptr show ?thesis by (auto simp: try_except_def ends_def)
  next
    case False
    with r [OF q1] ptr show ?thesis
      by (auto simp: try_except_def split: res.splits exn.splits)
  qed
qed

text \<open>No piece but \<open>main_try\<close> itself and the configuration raises \<open>SystemExit\<close>.\<close>

lemma exits_simps [simp]:
  "\<not> exits (Returned x)" "\<not> exits OutOfFuel" "\<not> exits (Raised (Exception cls))"
  "\<not> exits (Raised KeyboardInterrupt)" "exits (Raised (SystemExit code))"
  by (simp_all add: exits_def)

lemma no_exit_perform: "ends (\<lambda>r. \<not> exits r) (perform c oracle)"
  by (rule ends_perform) simp_all

lemma no_exit_pbind:
  "ends (\<lambda>r. \<not> exits r) p \<Longrightarrow> (\<And>x. ends (\<lambda>r. \<not> exits r) (f x)) \<Longrightarrow>
   ends (\<lambda>r. \<not> exits r) (pbind p f)"
  by (rule ends_pbind [where ?Q1.0 = "\<lambda>r. \<not> exits r"]) (auto simp: exits_def)

lemma no_exit_try_except:
  "ends (\<lambda>r. \<not> exits r) p \<Longrightarrow> ends (\<lambda>r. \<not> exits r) h \<Longrightarrow>
   ends (\<lambda>r. \<not> exits r) (try_except p h)"
  by (rule ends_try_except [where ?Q1.0 = "\<lambda>r. \<not> exits r"]) (auto simp: exits_def)

lemma py_int_raises: "py_int s = Inl e \<Longrightarrow> e = ValueError"
  by (auto simp: py_int_def Let_def split: option.splits if_splits)

lemma no_exit_py_int: "ends (\<lambda>r. \<not> exits r) (lift (py_int s))"
  by (rule ends_lift) (auto dest!: py_int_raises simp: ValueError_def)

lemma no_exit_preturn: "ends (\<lambda>r. \<not> exits r) (preturn x)"
  by (rule ends_preturn) simp

lemma no_exit_out_of_fuel: "ends (\<lambda>r. \<not> exits r) out_of_fuel"
  by (rule ends_out_of_fuel) simp

lemma no_exit_throw_ValueError: "ends (\<lambda>r. \<not> exits r) (throw ValueError)"
  by (rule ends_throw) (simp add: ValueError_def)

lemmas no_exit_intros = no_exit_perform no_exit_pbind no_exit_try_except no_exit_py_int
  no_exit_preturn no_exit_out_of_fuel no_exit_throw_ValueError

lemma no_exit_attempt: "ends (\<lambda>r. \<not> exits r) (attempt w config)"
  unfolding attempt_def
  by (intro no_exit_intros) (auto split: json_body.splits intro: no_exit_intros)

lemma no_exit_wait_loop: "ends (\<lambda>r. \<not> exits r) (wait_loop w config n)"
  by (induction n) (auto intro!: no_exit_intros no_exit_attempt)

lemma no_exit_wait_for_zap: "ends (\<lambda>r. \<not> exits r) (wait_for_zap w config)"
  unfolding wait_for_zap_def by (rule no_exit_wait_loop)

lemma no_exit_access_target: "ends (\<lambda>r. \<not> exits r) (access_target w config)"
  unfolding access_target_def by (intro no_exit_intros)

lemma no_exit_spider_poll: "ends (\<lambda>r. \<not> exits r) (spider_poll w sid st md fuel)"
  by (induction fuel) (auto simp: Let_def intro!: no_exit_intros)

lemma no_exit_run_spider_scan: "ends (\<lambda>r. \<not> exits r) (run_spider_scan w config p fuel)"
  unfolding run_spider_scan_def
  by (intro no_exit_intros no_exit_spider_poll) (auto intro: no_exit_intros)

lemma no_exit_ascan_poll: "ends (\<lambda>r. \<not> exits r) (ascan_poll w sid fuel)"
  by (induction fuel) (auto intro!: no_exit_intros)

lemma no_exit_run_active_scan: "ends (\<lambda>r. \<not> exits r) (run_active_scan w config p fuel)"
  unfolding run_active_scan_def
  by (auto intro!: no_exit_intros no_exit_ascan_poll)

lemma no_exit_get_alerts: "ends (\<lambda>r. \<not> exits r) (get_alerts w config)"
  unfolding get_alerts_def by (rule no_exit_perform)

lemma dict_index_raises: "dict_index d k = Inl e \<Longrightarrow> e = KeyError"
  by (auto simp: dict_index_def split: option.splits)

lemma ebind_Inl:
  "ebind m f = Inl e \<Longrightarrow> m = Inl e \<or> (\<exists>x. m = Inr x \<and> f x = Inl e)"
  by (cases m) (simp_all add: ebind_def)

lemma ebind_Inr: "ebind m f = Inr y \<Longrightarrow> \<exists>x. m = Inr x \<and> f x = Inr y"
  by (cases m) (simp_all add: ebind_def)

lemma efor_raises:
  assumes f: "\<And>x e. f x = Inl e \<Longrightarrow> e = KeyError"
  shows "efor f xs = Inl e \<Longrightarrow> e = KeyError"
proof (induction xs arbitrary: e)
  case Nil
  then show ?case by simp
next
  case (Cons x xs)
  show ?case
  proof (cases "f x")
    case (Inl e')
    with Cons.prems f [OF Inl] show ?thesis by (simp add: ebind_def)
  next
    case (Inr y)
    show ?thesis
    proof (cases "efor f xs")
      case (Inl e')
      with Cons.prems Inr Cons.IH [OF Inl] show ?thesis by (simp add: ebind_def)
    next
      case (Inr ys)
      with Cons.prems \<open>f x = Inr y\<close> show ?thesis by (simp add: ebind_def)
    qed
  qed
qed

lemma entry_raises:
  "ebind (dict_index a ''alert'') (\<lambda>n.
   ebind (dict_index a ''url'') (\<lambda>u.
   ebind (dict_index a ''description'') (\<lambda>d. Inr (g n u d)))) = Inl e \<Longrightarrow> e = KeyError"
  by (auto dest!: ebind_Inl dest: dict_index_raises)

lemma build_summary_raises: "build_summary ts alerts config rc sp = Inl e \<Longrightarrow> e = KeyError"
  unfolding build_summary_def
  by (drule ebind_Inl) (auto elim!: efor_raises [rotated] dest: entry_raises)

lemma build_summary_fields:
  "build_summary ts alerts config rc sp = Inr s \<Longrightarrow>
   timestamp s = ts \<and> risk_counts s = rc \<and> passed s = sp \<and> total_alerts s = length alerts \<and>
   thresholds s = [(''max_high'', max_high config), (''max_medium'', max_medium config),
                   (''max_low'', max_low config)]"
  unfolding build_summary_def by (auto dest!: ebind_Inr)

lemma no_exit_save_reports: "ends (\<lambda>r. \<not> exits r) (save_reports w alerts config rc sp)"
  unfolding save_reports_def
  by (intro no_exit_intros ends_lift) (auto dest!: build_summary_raises simp: KeyError_def)

lemma pbind_E [consumes 1, case_names stop go]:
  assumes "pbind p f tr = (tr', r)"
  obtains (stop) r0 where "p tr = (tr', r0)"
      "(\<exists>e. r0 = Raised e \<and> r = Raised e) \<or> (r0 = OutOfFuel \<and> r = OutOfFuel)"
        | (go) x t where "p tr = (t, Returned x)" "f x t = (tr', r)"
proof -
  obtain t r0 where ptr: "p tr = (t, r0)" by (cases "p tr")
  show ?thesis
  proof (cases r0)
    case (Returned x)
    with assms ptr have "f x t = (tr', r)" by (simp add: pbind_def)
    with ptr Returned show ?thesis by (auto intro: go)
  next
    case (Raised e)
    with assms ptr show ?thesis by (auto simp: pbind_def intro: stop)
  next
    case OutOfFuel
    with assms ptr show ?thesis by (auto simp: pbind_def intro: stop)
  qed
qed

lemma lift_E [consumes 1, case_names err val]:
  assumes "lift m tr = (tr', r)"
  obtains (err) e where "m = Inl e" "tr' = tr" "r = Raised e"
        | (val) x where "m = Inr x" "tr' = tr" "r = Returned x"
  using assms by (cases m) (auto simp: lift_def)

text \<open>A piece that writes no file and does not exit keeps a trace free of writes.\<close>

lemma calm:
  assumes o: "only (\<lambda>c. \<not> is_write c) p" and e: "ends (\<lambda>r. \<not> exits r) p"
    and run: "p t = (t', r)" and t: "list_all (\<lambda>c. \<not> is_write c) t"
  shows "list_all (\<lambda>c. \<not> is_write c) t' \<and> \<not> exits r"
proof -
  from onlyD [OF o, of t] run obtain evs where "t' = t @ evs" "list_all (\<lambda>c. \<not> is_write c) evs"
    by auto
  with t endsD [OF e run] show ?thesis by simp
qed

lemma calm_wait_for_zap:
  "wait_for_zap w config t = (t', r) \<Longrightarrow> list_all (\<lambda>c. \<not> is_write c) t \<Longrightarrow>
   list_all (\<lambda>c. \<not> is_write c) t' \<and> \<not> exits r"
  by (rule calm [OF only_wait_for_zap no_exit_wait_for_zap]) (simp_all add: is_write_def)

lemma calm_access_target:
  "access_target w config t = (t', r) \<Longrightarrow> list_all (\<lambda>c. \<not> is_write c) t \<Longrightarrow>
   list_all (\<lambda>c. \<not> is_write c) t' \<and> \<not> exits r"
  by (rule calm [OF only_access_target no_exit_access_target]) (simp_all add: is_write_def)

lemma calm_run_spider_scan:
  "run_spider_scan w config p fuel t = (t', r) \<Longrightarrow> list_all (\<lambda>c. \<not> is_write c) t \<Longrightarrow>
   list_all (\<lambda>c. \<not> is_write c) t' \<and> \<not> exits r"
  by (rule calm [OF only_run_spider_scan no_exit_run_spider_scan]) (simp_all add: is_write_def)

lemma calm_run_active_scan:
  "run_active_scan w config p fuel t = (t', r) \<Longrightarrow> list_all (\<lambda>c. \<not> is_write c) t \<Longrightarrow>
   list_all (\<lambda>c. \<not> is_write c) t' \<and> \<not> exits r"
  by (rule calm [OF only_run_active_scan no_exit_run_active_scan]) (simp_all add: is_write_def)

lemma calm_get_alerts:
  "get_alerts w config t = (t', r) \<Longrightarrow> list_all (\<lambda>c. \<not> is_write c) t \<Longrightarrow>
   list_all (\<lambda>c. \<not> is_write c) t' \<and> \<not> exits r"
  by (rule calm [OF only_get_alerts no_exit_get_alerts]) (simp_all add: is_write_def)

lemma analyze_alerts_raises: "analyze_alerts alerts = Inl e \<Longrightarrow> e = KeyError"
  by (simp add: analyze_alerts_char split: if_splits)

lemma check_thresholds_raises: "check_thresholds rc config = Inl e \<Longrightarrow> e = KeyError"
  unfolding check_thresholds_def
  by (auto dest!: ebind_Inl dest: dict_index_raises simp: Let_def)

lemma display_results_raises: "display_results alerts rc config = Inl e \<Longrightarrow> e = KeyError"
  unfolding display_results_def
  by (auto dest!: ebind_Inl dest: dict_index_raises check_thresholds_raises
        elim!: efor_raises [rotated] dest: entry_raises)

lemma display_results_gate:
  "display_results alerts rc config = Inr b \<Longrightarrow> \<exists>checks. check_thresholds rc config = Inr (b, checks)"
  unfolding display_results_def
  by (auto dest!: ebind_Inr)

lemma validate_raises: "validate c = Inl e \<Longrightarrow> e = SystemExit 2"
  by (auto simp: validate_def split: if_splits)

lemma get_required_raises: "get_required getenv k = Inl e \<Longrightarrow> e = SystemExit 2"
  by (auto simp: get_required_def split: option.splits if_splits)

lemma ScanConfig_init_raises:
  "ScanConfig_init getenv = Inl e \<Longrightarrow> e = SystemExit 2 \<or> e = ValueError"
  unfolding ScanConfig_init_def Let_def
  by (auto dest!: ebind_Inl dest: get_required_raises py_int_raises validate_raises)

lemma ScanConfig_init_valid:
  "ScanConfig_init getenv = Inr c \<Longrightarrow> validate c = Inr ()"
  unfolding ScanConfig_init_def Let_def
  by (auto dest!: ebind_Inr)

lemma validate_scan_type:
  "validate c = Inr () \<Longrightarrow> scan_type c \<in> {''quick'', ''standard'', ''full''}"
  by (auto simp: validate_def split: if_splits)

lemma ScanTypeConfig_get_valid:
  "validate c = Inr () \<Longrightarrow> \<exists>p. ScanTypeConfig_get (scan_type c) = Inr p"
  by (drule validate_scan_type) (auto simp: ScanTypeConfig_get_def TYPES_def dict_index_def)

lemma main_try_cases [consumes 1, case_names config_error unavailable aborted reported]:
  assumes run: "main_try getenv w fuel [] = (tr, r)"
  obtains
    (config_error) e where "ScanConfig_init getenv = Inl e" "tr = []" "r = Raised e"
  | (unavailable) config p where "ScanConfig_init getenv = Inr config"
      "ScanTypeConfig_get (scan_type config) = Inr p"
      "wait_for_zap w config [] = (tr, Returned False)" "r = Raised (SystemExit 2)"
  | (aborted) config p where "ScanConfig_init getenv = Inr config"
      "ScanTypeConfig_get (scan_type config) = Inr p"
      "list_all (\<lambda>c. \<not> is_write c) tr" "\<not> exits r" "\<forall>x. r \<noteq> Returned x"
  | (reported) config p t1 t2 t3 urls t4 alerts rc sp r' where
      "ScanConfig_init getenv = Inr config"
      "ScanTypeConfig_get (scan_type config) = Inr p"
      "wait_for_zap w config [] = (t1, Returned True)"
      "access_target w config t1 = (t2, Returned ())"
      "run_spider_scan w config p fuel t2 = (t3, Returned urls)"
      "run_active_scan w config p fuel t3 = (t4, Returned ())"
      "core_alerts w t4 = Reply alerts"
      "analyze_alerts alerts = Inr rc"
      "display_results alerts rc config = Inr sp"
      "list_all (\<lambda>c. \<not> is_write c) (t4 @ [CoreAlerts (target_url config)])"
      "save_reports w alerts config rc sp (t4 @ [CoreAlerts (target_url config)]) = (tr, r')"
      "r = (case r' of Returned u \<Rightarrow> Raised (SystemExit (if sp then 0 else 1))
                     | Raised e \<Rightarrow> Raised e | OutOfFuel \<Rightarrow> OutOfFuel)"
proof -
  from run [unfolded main_try_def] show ?thesis
  proof (cases rule: pbind_E)
    case (stop r0)
    then show ?thesis by (auto elim!: lift_E intro: config_error)
  next
    case (go config t0)
    from go(1) have cfg: "ScanConfig_init getenv = Inr config" and t0: "t0 = []"
      by (auto elim: lift_E)
    from ScanTypeConfig_get_valid [OF ScanConfig_init_valid [OF cfg]]
    obtain p where p: "ScanTypeConfig_get (scan_type config) = Inr p" ..
    from go(2) show ?thesis
    proof (cases rule: pbind_E)
      case (stop r0)
      with p show ?thesis by (auto elim!: lift_E)
    next
      case (go p' t0')
      with p t0 have [simp]: "p' = p" "t0' = []" by (auto elim!: lift_E)
      from go(2) show ?thesis
      proof (cases rule: pbind_E)
        case (stop r0)
        with calm_wait_for_zap [of w config "[]" tr r0] show ?thesis
          by (auto simp: exits_def intro!: aborted [OF cfg p])
      next
        case (go ready t1)
        note w1 = go(1) [simplified]
        from calm_wait_for_zap [OF w1] have n1: "list_all (\<lambda>c. \<not> is_write c) t1" by simp
        show ?thesis
        proof (cases ready)
          case False
          with go show ?thesis
            by (auto simp: throw_def intro: unavailable [OF cfg p])
        next
          case True
          with go(2) have rest: "pbind (access_target w config) (\<lambda>_.
         pbind (run_spider_scan w config p fuel) (\<lambda>urls.
         pbind (run_active_scan w config p fuel) (\<lambda>_.
         pbind (get_alerts w config) (\<lambda>alerts.
         pbind (lift (analyze_alerts alerts)) (\<lambda>rc.
         pbind (lift (display_results alerts rc config)) (\<lambda>scan_passed.
         pbind (save_reports w alerts config rc scan_passed) (\<lambda>_.
           if scan_passed then throw (SystemExit 0) else throw (SystemExit 1)))))))) t1 = (tr, r)"
            by simp
          from rest show ?thesis
          proof (cases rule: pbind_E)
            case (stop r0)
            from calm_access_target [OF stop(1) n1] stop(2) show ?thesis
              by (auto simp: exits_def intro!: aborted [OF cfg p])
          next
            case (go u2 t2)
            note a2 = go(1)
            from calm_access_target [OF a2 n1] have n2: "list_all (\<lambda>c. \<not> is_write c) t2" by simp
            from go(2) show ?thesis
            proof (cases rule: pbind_E)
              case (stop r0)
              from calm_run_spider_scan [OF stop(1) n2] stop(2) show ?thesis
                by (auto simp: exits_def intro!: aborted [OF cfg p])
            next
              case (go urls t3)
              note s3 = go(1)
              from calm_run_spider_scan [OF s3 n2] have n3: "list_all (\<lambda>c. \<not> is_write c) t3"
                by simp
              from go(2) show ?thesis
              proof (cases rule: pbind_E)
                case (stop r0)
                from calm_run_active_scan [OF stop(1) n3] stop(2) show ?thesis
                  by (auto simp: exits_def intro!: aborted [OF cfg p])
              next
                case (go u4 t4)
                note a4 = go(1)
                from calm_run_active_scan [OF a4 n3] have n4: "list_all (\<lambda>c. \<not> is_write c) t4"
                  by simp
                from go(2) show ?thesis
                proof (cases rule: pbind_E)
                  case (stop r0)
                  from calm_get_alerts [OF stop(1) n4] stop(2) show ?thesis
                    by (auto simp: exits_def intro!: aborted [OF cfg p])
                next
                  case (go alerts t5)
                  from go(1) have al: "core_alerts w t4 = Reply alerts"
                    and t5: "t5 = t4 @ [CoreAlerts (target_url config)]"
                    by (auto simp: get_alerts_def perform_def split: reply.splits)
                  from calm_get_alerts [OF go(1) n4] t5
                  have n5: "list_all (\<lambda>c. \<not> is_write c) (t4 @ [CoreAlerts (target_url config)])"
                    by simp
                  from go(2) show ?thesis
                  proof (cases rule: pbind_E)
                    case (stop r0)
                    with n5 t5 show ?thesis
                      by (auto elim!: lift_E dest!: analyze_alerts_raises simp: KeyError_def exits_def
                            intro!: aborted [OF cfg p])
                  next
                    case (go rc t6)
                    from go(1) t5 have rc: "analyze_alerts alerts = Inr rc"
                      and t6: "t6 = t4 @ [CoreAlerts (target_url config)]"
                      by (auto elim: lift_E)
                    from go(2) show ?thesis
                    proof (cases rule: pbind_E)
                      case (stop r0)
                      with n5 t6 show ?thesis
                        by (auto elim!: lift_E dest!: display_results_raises simp: KeyError_def exits_def
                              intro!: aborted [OF cfg p])
                    next
                      case (go sp t7)
                      from go(1) t6 have sp: "display_results alerts rc config = Inr sp"
                        and t7: "t7 = t4 @ [CoreAlerts (target_url config)]"
                        by (auto elim: lift_E)
                      obtain r' where sv: "save_reports w alerts config rc sp
                          (t4 @ [CoreAlerts (target_url config)]) = (tr, r')"
                        using go(2) t7 by (auto simp: pbind_def throw_def split: prod.splits res.splits if_splits)
                      have "r = (case r' of Returned u \<Rightarrow> Raised (SystemExit (if sp then 0 else 1))
                                  | Raised e \<Rightarrow> Raised e | OutOfFuel \<Rightarrow> OutOfFuel)"
                        using go(2) t7 sv by (auto simp: pbind_def throw_def split: res.splits if_splits)
                      with cfg p w1 True a2 s3 a4 al rc sp n5 sv show ?thesis
                        by (intro reported [of config p t1 t2 t3 urls t4 alerts rc sp r']) simp_all
                    qed
                  qed
                qed
              qed
            qed
          qed
        qed
      qed
    qed
  qed
qed

lemma main_eq:
  "main getenv w fuel =
     (fst (main_try getenv w fuel []),
      case snd (main_try getenv w fuel []) of
        Raised (SystemExit code) \<Rightarrow> Exit code
      | Raised KeyboardInterrupt \<Rightarrow> Exit 130
      | Raised (Exception cls) \<Rightarrow> Exit 2
      | Returned u \<Rightarrow> Exit 0
      | OutOfFuel \<Rightarrow> StillRunning)"
  by (simp add: main_def split: prod.splits res.splits exn.splits)

lemma save_reports_trace:
  "save_reports w alerts config rc sp t = (t', r) \<Longrightarrow> \<exists>evs. t' = t @ evs"
  using onlyD [OF only_save_reports [of "\<lambda>c. True" config alerts rc sp w], of t]
  by auto

lemma save_reports_ends:
  "save_reports w alerts config rc sp t = (t', r) \<Longrightarrow> \<not> exits r"
  by (rule endsD [OF no_exit_save_reports])

text \<open>Exit codes 0 and 1 come from the gate, at the end of a run that reported.\<close>

lemma main_try_exit:
  assumes run: "main_try getenv w fuel [] = (tr, Raised (SystemExit code))"
  shows "code = 2 \<and>
           (ScanConfig_init getenv = Inl (SystemExit 2) \<and> tr = [] \<or>
            (\<exists>config. ScanConfig_init getenv = Inr config \<and>
               wait_for_zap w config [] = (tr, Returned False))) \<or>
         (\<exists>config p t1 t2 t3 urls t4 alerts rc checks rest.
            ScanConfig_init getenv = Inr config \<and>
            ScanTypeConfig_get (scan_type config) = Inr p \<and>
            wait_for_zap w config [] = (t1, Returned True) \<and>
            access_target w config t1 = (t2, Returned ()) \<and>
            run_spider_scan w config p fuel t2 = (t3, Returned urls) \<and>
            run_active_scan w config p fuel t3 = (t4, Returned ()) \<and>
            tr = t4 @ CoreAlerts (target_url config) # rest \<and>
            core_alerts w t4 = Reply alerts \<and>
            analyze_alerts alerts = Inr rc \<and>
            check_thresholds rc config = Inr (code = 0, checks) \<and>
            (code = 0 \<or> code = 1))"
  using run
proof (cases rule: main_try_cases)
  case (config_error e)
  with ScanConfig_init_raises [of getenv e] show ?thesis by (auto simp: ValueError_def)
next
  case (unavailable config p)
  then show ?thesis by simp
next
  case (aborted config p)
  then show ?thesis by simp
next
  case (reported config p t1 t2 t3 urls t4 alerts rc sp r')
  from save_reports_trace [OF reported(11)] obtain evs
    where tr: "tr = t4 @ CoreAlerts (target_url config) # evs" by auto
  from save_reports_ends [OF reported(11)] reported(12)
  have code: "code = (if sp then 0 else 1)"
    by (cases r') (auto simp: exits_def)
  from display_results_gate [OF reported(9)] obtain checks
    where "check_thresholds rc config = Inr (sp, checks)" ..
  with code have "check_thresholds rc config = Inr (code = 0, checks)" "code = 0 \<or> code = 1"
    by auto
  with reported tr show ?thesis by blast
qed

lemma main_try_no_return: "main_try getenv w fuel [] \<noteq> (tr, Returned u)"
proof
  assume "main_try getenv w fuel [] = (tr, Returned u)"
  then show False
  proof (cases rule: main_try_cases)
    case (reported config p t1 t2 t3 urls t4 alerts rc sp r')
    then show ?thesis by (cases r') auto
  qed auto
qed


lemma main_exit_gate:
  assumes "snd (main getenv w fuel) = Exit code" and "code = 0 \<or> code = 1"
  shows "\<exists>config p t1 t2 t3 urls t4 alerts rc checks rest.
            ScanConfig_init getenv = Inr config \<and>
            ScanTypeConfig_get (scan_type config) = Inr p \<and>
            wait_for_zap w config [] = (t1, Returned True) \<and>
            access_target w config t1 = (t2, Returned ()) \<and>
            run_spider_scan w config p fuel t2 = (t3, Returned urls) \<and>
            run_active_scan w config p fuel t3 = (t4, Returned ()) \<and>
            fst (main getenv w fuel) = t4 @ CoreAlerts (target_url config) # rest \<and>
            core_alerts w t4 = Reply alerts \<and>
            analyze_alerts alerts = Inr rc \<and>
            check_thresholds rc config = Inr (code = 0, checks)"
proof -
  obtain tr r where run: "main_try getenv w fuel [] = (tr, r)" by (cases "main_try getenv w fuel []")
  have "r = Raised (SystemExit code)"
  proof (cases r)
    case (Returned u)
    with run main_try_no_return show ?thesis by blast
  next
    case (Raised e)
    with assms run show ?thesis by (cases e) (auto simp: main_eq)
  next
    case OutOfFuel
    with assms run show ?thesis by (simp add: main_eq)
  qed
  with run have "main_try getenv w fuel [] = (tr, Raised (SystemExit code))" by simp
  from main_try_exit [OF this] assms(2) run show ?thesis
    by (auto simp: main_eq)
qed


lemma main_unavailable:
  assumes cfg: "ScanConfig_init getenv = Inr config"
    and w: "wait_for_zap w config [] = (tr, Returned False)"
  shows "main getenv w fuel = (tr, Exit 2)"
proof -
  from ScanTypeConfig_get_valid [OF ScanConfig_init_valid [OF cfg]]
  obtain p where p: "ScanTypeConfig_get (scan_type config) = Inr p" ..
  with cfg w show ?thesis
    by (simp add: main_def main_try_def pbind_def lift_def throw_def)
qed



lemmas config_defs = ScanConfig_init_def get_required_def get_optional_def py_int_def
  trim_space_def max_str_digits_def is_space_def parse_unsigned_def digit_val_def validate_def ebind_def env_of_def Let_def

lemmas prog_defs = lift_def pbind_def try_except_def perform_def preturn_def throw_def
  out_of_fuel_def

lemmas run_defs = main_def main_try_def wait_for_zap_def attempt_def access_target_def
  run_spider_scan_def run_active_scan_def get_alerts_def analyze_alerts_def incr_count_def
  display_results_def is_high_def check_thresholds_def save_reports_def build_summary_def
  py_trunc_def KeyError_def ValueError_def numeral_nat ScanTypeConfig_get_def
  TYPES_def dict_index_def dict_get_def ebind_def Let_def

lemma config_standard:
  "ScanConfig_init (env_of ''standard'') =
     Inr \<lparr> target_url = ''http://target.example'', scan_type = ''standard'',
       zap_host = ''localhost'', zap_port = 8080,
       max_high = 0, max_medium = 5, max_low = 999, report_dir = ''./reports'' \<rparr>"
  by (simp add: config_defs)



lemma int_100: "py_int ''100'' = Inr 100"
  by (simp add: config_defs)

lemma run_standard: "snd (main (env_of ''standard'') quiet_world 5) = Exit 0"
  by (simp add: config_standard int_100 prog_defs run_defs quiet_world_def sample_alerts_def)



lemma wait_down:
  "snd (wait_for_zap down_world config []) = Returned False"
  by (simp add: prog_defs wait_for_zap_def attempt_def quiet_world_def down_world_def numeral_nat)



lemma perform_E [consumes 1, case_names reply fails interrupted]:
  assumes "perform c oracle tr = (tr', r)"
  obtains (reply) x where "oracle tr = Reply x" "tr' = tr @ [c]" "r = Returned x"
        | (fails) cls where "oracle tr = Fails cls" "tr' = tr @ [c]" "r = Raised (Exception cls)"
        | (interrupted) "oracle tr = Interrupted" "tr' = tr @ [c]" "r = Raised KeyboardInterrupt"
  using assms by (cases "oracle tr") (auto simp: perform_def)

lemma try_except_E [consumes 1, case_names caught passed]:
  assumes "try_except p h tr = (tr', r)"
  obtains (caught) cls t where "p tr = (t, Raised (Exception cls))" "h t = (tr', r)"
        | (passed) "p tr = (tr', r)" "\<forall>cls. r \<noteq> Raised (Exception cls)"
proof -
  obtain t r0 where ptr: "p tr = (t, r0)" by (cases "p tr")
  show ?thesis
  proof (cases "\<exists>cls. r0 = Raised (Exception cls)")
    case True
    with assms ptr show ?thesis by (auto simp: try_except_def intro: caught)
  next
    case False
    with assms ptr show ?thesis
      by (intro passed) (auto simp: try_except_def split: res.splits exn.splits)
  qed
qed

lemma no_summary_simps [simp]:
  "no_summary (Mkdir d)" "no_summary DatetimeNow" "no_summary CoreHtmlreport"
  "no_summary (WriteFile d f (HtmlFile h))" "no_summary (WriteFile d f (AlertsFile a))"
  "no_summary (WriteFile d f (SummaryFile s)) = False"
  by (simp_all add: no_summary_def)

lemma not_write_no_summary: "list_all (\<lambda>c. \<not> is_write c) t \<Longrightarrow> list_all no_summary t"
  by (auto simp: list_all_iff is_write_def no_summary_def)

lemma html_step:
  assumes "try_except
              (pbind (perform CoreHtmlreport (core_htmlreport w)) (\<lambda>html_report.
                 perform (WriteFile dir f (HtmlFile html_report)) (write_file w)))
              (preturn ()) t = (t', r)"
    and "list_all no_summary t"
  shows "list_all no_summary t'"
proof -
  have "only no_summary (try_except
              (pbind (perform CoreHtmlreport (core_htmlreport w)) (\<lambda>html_report.
                 perform (WriteFile dir f (HtmlFile html_report)) (write_file w)))
              (preturn ()))"
    by (intro only_intros only_perform) simp_all
  from onlyD [OF this, of t] assms show ?thesis by auto
qed

lemma alerts_step:
  assumes "try_except (perform (WriteFile dir f (AlertsFile alerts)) (write_file w))
              (preturn ()) t = (t', r)"
    and "list_all no_summary t"
  shows "list_all no_summary t'"
proof -
  have "only no_summary (try_except (perform (WriteFile dir f (AlertsFile alerts)) (write_file w))
              (preturn ()))"
    by (intro only_intros only_perform) simp_all
  from onlyD [OF this, of t] assms show ?thesis by auto
qed

lemma summary_step:
  assumes run: "try_except
       (pbind (lift (build_summary ts alerts config rc sp)) (\<lambda>s.
          perform (WriteFile dir f (SummaryFile s)) (write_file w)))
       (preturn ()) t = (t', r)"
    and t: "list_all no_summary t"
    and mem: "WriteFile d' f' (SummaryFile s) \<in> set t'"
  shows "build_summary ts alerts config rc sp = Inr s \<and>
         (r = Returned () \<or> r = Raised KeyboardInterrupt)"
proof -
  from t have nt: "WriteFile d' f' (SummaryFile s) \<notin> set t"
    by (auto simp: list_all_iff no_summary_def)
  show ?thesis
  proof (cases "build_summary ts alerts config rc sp")
    case (Inl e)
    with build_summary_raises [OF Inl] run mem nt show ?thesis
      by (auto simp: try_except_def pbind_def lift_def preturn_def KeyError_def)
  next
    case (Inr s')
    with run mem nt show ?thesis
      by (cases "write_file w t")
        (auto simp: try_except_def pbind_def lift_def preturn_def perform_def)
  qed
qed

lemma save_reports_summary:
  assumes run: "save_reports w alerts config rc sp t = (t', r)"
    and t: "list_all (\<lambda>c. \<not> is_write c) t"
    and mem: "WriteFile d f (SummaryFile s) \<in> set t'"
  shows "(\<exists>ts. build_summary ts alerts config rc sp = Inr s) \<and>
         (r = Returned () \<or> r = Raised KeyboardInterrupt)"
proof -
  note ns = not_write_no_summary [OF t]
  have nt: "\<And>t. list_all no_summary t \<Longrightarrow> WriteFile d f (SummaryFile s) \<notin> set t"
    by (auto simp: list_all_iff no_summary_def)
  from run [unfolded save_reports_def] show ?thesis
  proof (cases rule: pbind_E)
    case (stop r0)
    from stop(1) ns have "list_all no_summary t'" by (cases rule: perform_E) simp_all
    with nt mem show ?thesis by blast
  next
    case (go u1 t1)
    from go(1) ns have n1: "list_all no_summary t1" by (cases rule: perform_E) simp_all
    from go(2) show ?thesis
    proof (cases rule: pbind_E)
      case (stop r0)
      from stop(1) n1 have "list_all no_summary t'" by (cases rule: perform_E) simp_all
      with nt mem show ?thesis by blast
    next
      case (go ts t2)
      from go(1) n1 have n2: "list_all no_summary t2" by (cases rule: perform_E) simp_all
      from go(2) show ?thesis
      proof (cases rule: pbind_E)
        case (stop r0)
        from html_step [OF stop(1) n2] nt mem show ?thesis by blast
      next
        case (go u3 t3)
        note n3 = html_step [OF go(1) n2]
        from go(2) show ?thesis
        proof (cases rule: pbind_E)
          case (stop r0)
          from alerts_step [OF stop(1) n3] nt mem show ?thesis by blast
        next
          case (go u4 t4)
          note n4 = alerts_step [OF go(1) n3]
          from summary_step [OF go(2) n4 mem] show ?thesis by blast
        qed
      qed
    qed
  qed
qed

lemma save_reports_summary_fields:
  assumes "list_all (\<lambda>c. \<not> is_write c) t"
    and "WriteFile d f (SummaryFile s) \<in> set (fst (save_reports w alerts config rc sp t))"
  shows "risk_counts s = rc \<and> passed s = sp \<and> total_alerts s = length alerts"
proof -
  obtain t' r where run: "save_reports w alerts config rc sp t = (t', r)"
    by (cases "save_reports w alerts config rc sp t")
  with assms save_reports_summary [OF run, of d f s] obtain ts
    where "build_summary ts alerts config rc sp = Inr s" by auto
  from build_summary_fields [OF this] show ?thesis by simp
qed

lemma main_summary:
  assumes mem: "WriteFile d f (SummaryFile s) \<in> set (fst (main getenv w fuel))"
  shows "\<exists>config t0 rest alerts rc checks.
         ScanConfig_init getenv = Inr config \<and>
         fst (main getenv w fuel) = t0 @ CoreAlerts (target_url config) # rest \<and>
         core_alerts w t0 = Reply alerts \<and>
         analyze_alerts alerts = Inr rc \<and>
         check_thresholds rc config = Inr (passed s, checks) \<and>
         risk_counts s = rc \<and>
         (snd (main getenv w fuel) = Exit (if passed s then 0 else 1) \<or>
          snd (main getenv w fuel) = Exit 130)"
proof -
  obtain tr r where run: "main_try getenv w fuel [] = (tr, r)"
    by (cases "main_try getenv w fuel []")
  with mem have mem': "WriteFile d f (SummaryFile s) \<in> set tr" by (simp add: main_eq)
  from run show ?thesis
  proof (cases rule: main_try_cases)
    case (config_error e)
    with mem' show ?thesis by simp
  next
    case (unavailable config p)
    from calm_wait_for_zap [OF unavailable(3)] mem' show ?thesis
      by (auto simp: list_all_iff is_write_def)
  next
    case (aborted config p)
    with mem' show ?thesis by (auto simp: list_all_iff is_write_def)
  next
    case (reported config p t1 t2 t3 urls t4 alerts rc sp r')
    from save_reports_summary [OF reported(11) reported(10) mem'] obtain ts
      where bs: "build_summary ts alerts config rc sp = Inr s"
        and r': "r' = Returned () \<or> r' = Raised KeyboardInterrupt" by blast
    from build_summary_fields [OF bs] have s: "risk_counts s = rc" "passed s = sp" by simp_all
    from display_results_gate [OF reported(9)] s obtain checks
      where g: "check_thresholds rc config = Inr (passed s, checks)" by auto
    from save_reports_trace [OF reported(11)] obtain evs
      where tr: "tr = t4 @ CoreAlerts (target_url config) # evs" by auto
    from r' reported(12) s run
    have "snd (main getenv w fuel) = Exit (if passed s then 0 else 1) \<or>
          snd (main getenv w fuel) = Exit 130"
      by (auto simp: main_eq)
    with reported(1,7,8) g s tr run show ?thesis
      by (auto simp: main_eq)
  qed
qed

text \<open>
  Claim C4. Whatever summary \<^verbatim>\<open>save_reports\<close> writes carries the risk counts and the
  pass flag it was given; and in a run of \<^verbatim>\<open>main\<close>, a summary that is written holds
  the counts \<^verbatim>\<open>analyze_alerts\<close> computed from the alerts the scanner listed in this
  run and the overall result \<^verbatim>\<open>check_thresholds\<close> computed from these counts, which
  is the result that decides between exit codes 0 and 1 (unless the user interrupts the
  last write).
\<close>

theorem summary_matches_run:
  "(list_all (\<lambda>c. \<not> is_write c) t \<and>
    WriteFile d f (SummaryFile s) \<in> set (fst (save_reports w alerts config rc sp t)) \<longrightarrow>
      risk_counts s = rc \<and> passed s = sp \<and> total_alerts s = length alerts) \<and>
   (WriteFile d f (SummaryFile s) \<in> set (fst (main getenv w fuel)) \<longrightarrow>
      (\<exists>config t0 rest alerts rc checks.
         ScanConfig_init getenv = Inr config \<and>
         fst (main getenv w fuel) = t0 @ CoreAlerts (target_url config) # rest \<and>
         core_alerts w t0 = Reply alerts \<and>
         analyze_alerts alerts = Inr rc \<and>
         check_thresholds rc config = Inr (passed s, checks) \<and>
         risk_counts s = rc \<and>
         (snd (main getenv w fuel) = Exit (if passed s then 0 else 1) \<or>
          snd (main getenv w fuel) = Exit 130)))"
  using save_reports_summary_fields [of t d f s w alerts config rc sp]
    main_summary [of d f s getenv w fuel]
  by blast

lemma trace_standard:
  "fst (main (env_of ''standard'') quiet_world 5) =
     [VersionRequest ''localhost'' 8080 5, Urlopen ''http://target.example'', Sleep 2,
      SpiderSetOptionMaxDepth 2, SpiderScan ''http://target.example'', TimeTime,
      SpiderStatus ''0'', SpiderResults ''0'', AscanScan ''http://target.example'',
      AscanStatus ''1'', CoreAlerts ''http://target.example'', Mkdir ''./reports'',
      DatetimeNow, CoreHtmlreport,
      WriteFile ''./reports'' ''zap_report_20240101_120000.html'' (HtmlFile ''<html></html>''),
      WriteFile ''./reports'' ''zap_report_20240101_120000.json'' (AlertsFile sample_alerts),
      WriteFile ''./reports'' ''zap_summary_20240101_120000.json'' (SummaryFile sample_summary)]"
  by (simp add: config_standard int_100 prog_defs run_defs quiet_world_def sample_alerts_def
      sample_summary_def)

lemma save_standard:
  "fst (save_reports quiet_world sample_alerts default_config
          [(''High'', 0), (''Medium'', 1), (''Low'', 1), (''Informational'', 1)] True []) =
     [Mkdir ''./reports'', DatetimeNow, CoreHtmlreport,
      WriteFile ''./reports'' ''zap_report_20240101_120000.html'' (HtmlFile ''<html></html>''),
      WriteFile ''./reports'' ''zap_report_20240101_120000.json'' (AlertsFile sample_alerts),
      WriteFile ''./reports'' ''zap_summary_20240101_120000.json'' (SummaryFile sample_summary)]"
  by (simp add: prog_defs run_defs quiet_world_def sample_alerts_def sample_summary_def
      default_config_def)

theorem summary_matches_run_witness:
  "WriteFile ''./reports'' ''zap_summary_20240101_120000.json'' (SummaryFile sample_summary)
     \<in> set (fst (save_reports quiet_world sample_alerts default_config
          [(''High'', 0), (''Medium'', 1), (''Low'', 1), (''Informational'', 1)] True [])) \<and>
   risk_counts sample_summary =
     [(''High'', 0), (''Medium'', 1), (''Low'', 1), (''Informational'', 1)] \<and>
   passed sample_summary = True \<and>
   WriteFile ''./reports'' ''zap_summary_20240101_120000.json'' (SummaryFile sample_summary)
     \<in> set (fst (main (env_of ''standard'') quiet_world 5)) \<and>
   (\<exists>config t0 rest alerts checks.
      ScanConfig_init (env_of ''standard'') = Inr config \<and>
      fst (main (env_of ''standard'') quiet_world 5) = t0 @ CoreAlerts (target_url config) # rest \<and>
      core_alerts quiet_world t0 = Reply alerts \<and>
      analyze_alerts alerts =
        Inr [(''High'', 0), (''Medium'', 1), (''Low'', 1), (''Informational'', 1)] \<and>
      check_thresholds [(''High'', 0), (''Medium'', 1), (''Low'', 1), (''Informational'', 1)] config
        = Inr (True, checks)) \<and>
   snd (main (env_of ''standard'') quiet_world 5) = Exit 0"
proof -
  let ?rc = "[(''High'', 0), (''Medium'', 1), (''Low'', 1), (''Informational'', 1)] :: risk_counts"
  note t = summary_matches_run [where d = "''./reports''"
      and f = "''zap_summary_20240101_120000.json''" and s = sample_summary
      and w = quiet_world and t = "[]" and alerts = sample_alerts and config = default_config
      and rc = ?rc and sp = True and getenv = "env_of ''standard''" and fuel = 5]
  have mem0: "WriteFile ''./reports'' ''zap_summary_20240101_120000.json''
      (SummaryFile sample_summary) \<in> set (fst (save_reports quiet_world sample_alerts
         default_config ?rc True []))"
    by (simp add: save_standard)
  with t have f0: "risk_counts sample_summary = ?rc" "passed sample_summary = True"
    by simp_all
  have mem: "WriteFile ''./reports'' ''zap_summary_20240101_120000.json''
      (SummaryFile sample_summary) \<in> set (fst (main (env_of ''standard'') quiet_world 5))"
    by (simp add: trace_standard)
  with t obtain config t0 rest alerts rc checks where
    "ScanConfig_init (env_of ''standard'') = Inr config"
    "fst (main (env_of ''standard'') quiet_world 5) = t0 @ CoreAlerts (target_url config) # rest"
    "core_alerts quiet_world t0 = Reply alerts"
    "analyze_alerts alerts = Inr rc"
    "check_thresholds rc config = Inr (passed sample_summary, checks)"
    "risk_counts sample_summary = rc"
    by blast
  with f0 have "\<exists>config t0 rest alerts checks.
      ScanConfig_init (env_of ''standard'') = Inr config \<and>
      fst (main (env_of ''standard'') quiet_world 5) = t0 @ CoreAlerts (target_url config) # rest \<and>
      core_alerts quiet_world t0 = Reply alerts \<and>
      analyze_alerts alerts = Inr ?rc \<and>
      check_thresholds ?rc config = Inr (True, checks)"
    by auto
  with mem0 f0 mem run_standard show ?thesis by blast
qed

section \<open>The poller, the crawl and the quick scan\<close>

lemma attempt_eq:
  "attempt w config tr =
     (tr @ [version_request config],
      case requests_get w tr of
        Reply response \<Rightarrow>
          (if status_code response = 200
           then (case json response of
                   JsonObject d \<Rightarrow> Returned True
                 | NotJsonObject \<Rightarrow> Returned False)
           else Returned False)
      | Fails cls \<Rightarrow> Returned False
      | Interrupted \<Rightarrow> Raised KeyboardInterrupt)"
  by (simp add: attempt_def version_request_def try_except_def pbind_def perform_def preturn_def
      throw_def ValueError_def split: reply.splits json_body.splits)

lemma wait_loop_success:
  assumes "requests_get w tr = Reply response" "status_code response = 200"
    "json response = JsonObject d"
  shows "wait_loop w config (Suc n) tr = (tr @ [version_request config], Returned True)"
  using assms by (simp add: pbind_def attempt_eq preturn_def)

lemma wait_loop_swallow:
  assumes "requests_get w tr = Fails cls" "sleep w (tr @ [version_request config]) = Reply ()"
  shows "wait_loop w config (Suc n) tr =
         wait_loop w config n (tr @ [version_request config, Sleep 2])"
  using assms by (simp add: pbind_def attempt_eq perform_def)

lemma wait_loop_calls:
  "\<exists>evs. fst (wait_loop w config n tr) = tr @ evs \<and>
         list_all (\<lambda>c. c = version_request config \<or> c = Sleep 2) evs \<and>
         length (filter is_version_request evs) \<le> n"
proof (induction n arbitrary: tr)
  case 0
  show ?case by (simp add: preturn_def)
next
  case (Suc n)
  let ?t1 = "tr @ [version_request config]"
  let ?t2 = "tr @ [version_request config, Sleep 2]"
  obtain r where a: "attempt w config tr = (?t1, r)" by (simp add: attempt_eq)
  have v: "is_version_request (version_request config)"
    by (simp add: is_version_request_def version_request_def)
  have s: "\<not> is_version_request (Sleep 2)" by (simp add: is_version_request_def)
  show ?case
  proof (cases "r = Returned False \<and> sleep w ?t1 = Reply ()")
    case True
    from Suc.IH [of ?t2] obtain evs where evs: "fst (wait_loop w config n ?t2) = ?t2 @ evs"
      "list_all (\<lambda>c. c = version_request config \<or> c = Sleep 2) evs"
      "length (filter is_version_request evs) \<le> n" by blast
    from a True have "wait_loop w config (Suc n) tr = wait_loop w config n ?t2"
      by (simp add: pbind_def perform_def)
    with evs v s show ?thesis
      by (intro exI [of _ "[version_request config, Sleep 2] @ evs"]) simp
  next
    case False
    then consider (ended) "\<forall>x. r \<noteq> Returned x" | (ready) "r = Returned True"
      | (nosleep) "r = Returned False" "sleep w ?t1 \<noteq> Reply ()"
      by (cases r) auto
    then show ?thesis
    proof cases
      case ended
      with a have "fst (wait_loop w config (Suc n) tr) = ?t1"
        by (cases r) (auto simp: pbind_def)
      with v show ?thesis by (intro exI [of _ "[version_request config]"]) simp
    next
      case ready
      with a have "fst (wait_loop w config (Suc n) tr) = ?t1"
        by (simp add: pbind_def preturn_def)
      with v show ?thesis by (intro exI [of _ "[version_request config]"]) simp
    next
      case nosleep
      with a have "fst (wait_loop w config (Suc n) tr) = ?t2"
        by (cases "sleep w ?t1") (simp_all add: pbind_def perform_def)
      with v s show ?thesis by (intro exI [of _ "[version_request config, Sleep 2]"]) simp
    qed
  qed
qed

lemma wait_loop_result:
  "snd (wait_loop w config n tr) = Returned True \<or>
   snd (wait_loop w config n tr) = Returned False \<or>
   snd (wait_loop w config n tr) = Raised KeyboardInterrupt \<or>
   (\<exists>pre cls. fst (wait_loop w config n tr) = pre @ [Sleep 2] \<and> sleep w pre = Fails cls \<and>
      snd (wait_loop w config n tr) = Raised (Exception cls))"
proof (induction n arbitrary: tr)
  case 0
  show ?case by (simp add: preturn_def)
next
  case (Suc n)
  show ?case
  proof (cases "snd (attempt w config tr) = Returned False")
    case False
    then show ?thesis
      by (auto simp: pbind_def attempt_eq preturn_def split: reply.splits json_body.splits if_splits)
  next
    case True
    then have a: "attempt w config tr = (tr @ [version_request config], Returned False)"
      by (simp add: attempt_eq)
    show ?thesis
    proof (cases "sleep w (tr @ [version_request config])")
      case (Reply u)
      with a Suc.IH [of "tr @ [version_request config, Sleep 2]"] show ?thesis
        by (simp add: pbind_def perform_def)
    next
      case (Fails cls)
      with a show ?thesis by (simp add: pbind_def perform_def)
    next
      case Interrupted
      with a show ?thesis by (simp add: pbind_def perform_def)
    qed
  qed
qed

lemma wait_loop_exhausted:
  "snd (wait_loop w config n tr) = Returned False \<Longrightarrow>
   fst (wait_loop w config n tr) = tr @ concat (replicate n [version_request config, Sleep 2])"
proof (induction n arbitrary: tr)
  case 0
  show ?case by (simp add: preturn_def)
next
  case (Suc n)
  from Suc.prems Suc.IH [of "tr @ [version_request config, Sleep 2]"] show ?case
    by (auto simp: pbind_def attempt_eq perform_def preturn_def
        split: reply.splits json_body.splits if_splits)
qed

lemma wait_loop_ready:
  "snd (wait_loop w config n tr) = Returned True \<Longrightarrow>
   \<exists>pre response d. fst (wait_loop w config n tr) = pre @ [version_request config] \<and>
      requests_get w pre = Reply response \<and> status_code response = 200 \<and>
      json response = JsonObject d"
proof (induction n arbitrary: tr)
  case 0
  then show ?case by (simp add: preturn_def)
next
  case (Suc n)
  from Suc.prems Suc.IH [of "tr @ [version_request config, Sleep 2]"] show ?case
    by (auto simp: pbind_def attempt_eq perform_def preturn_def
        split: reply.splits json_body.splits if_splits)
qed

lemma only_main_try:
  assumes P: "\<And>config p. ScanConfig_init getenv = Inr config \<Longrightarrow>
      ScanTypeConfig_get (scan_type config) = Inr p \<Longrightarrow>
      P (VersionRequest (zap_host config) (zap_port config) 5) \<and> P (Sleep 2) \<and>
      P (Urlopen (target_url config)) \<and>
      (0 < spider_max_depth p \<longrightarrow> P (SpiderSetOptionMaxDepth (spider_max_depth p))) \<and>
      P (SpiderScan (target_url config)) \<and> P TimeTime \<and>
      (\<forall>sid. P (SpiderStatus sid)) \<and> (\<forall>sid. P (SpiderResults sid)) \<and>
      (0 < spider_max_duration p \<longrightarrow> (\<forall>sid. P (SpiderStop sid))) \<and>
      (active_scan p \<longrightarrow>
         P (AscanScan (target_url config)) \<and> (\<forall>sid. P (AscanStatus sid)) \<and> P (Sleep 5)) \<and>
      P (CoreAlerts (target_url config)) \<and> P (Mkdir (report_dir config)) \<and>
      P DatetimeNow \<and> P CoreHtmlreport \<and> (\<forall>f x. P (WriteFile (report_dir config) f x))"
  shows "only P (main_try getenv w fuel)"
  unfolding main_try_def
proof (rule only_pbind [OF only_lift], rule only_pbind [OF only_lift])
  fix config t0 t0' p t1 t1'
  assume "lift (ScanConfig_init getenv) t0 = (t0', Returned config)"
    and "lift (ScanTypeConfig_get (scan_type config)) t1 = (t1', Returned p)"
  then have "ScanConfig_init getenv = Inr config" "ScanTypeConfig_get (scan_type config) = Inr p"
    by (auto dest: lift_Returned)
  note f = P [OF this]
  show "only P (pbind (wait_for_zap w config) (\<lambda>ready.
       if \<not> ready then throw (SystemExit 2)
       else
         pbind (access_target w config) (\<lambda>_.
         pbind (run_spider_scan w config p fuel) (\<lambda>urls.
         pbind (run_active_scan w config p fuel) (\<lambda>_.
         pbind (get_alerts w config) (\<lambda>alerts.
         pbind (lift (analyze_alerts alerts)) (\<lambda>rc.
         pbind (lift (display_results alerts rc config)) (\<lambda>scan_passed.
         pbind (save_reports w alerts config rc scan_passed) (\<lambda>_.
           if scan_passed then throw (SystemExit 0) else throw (SystemExit 1))))))))))"
    by (intro only_intros only_wait_for_zap only_access_target only_run_spider_scan
        only_run_active_scan only_get_alerts only_save_reports) (use f in simp_all)
qed

lemma main_calls:
  assumes "only P (main_try getenv w fuel)"
  shows "list_all P (fst (main getenv w fuel))"
  using onlyD [OF assms, of "[]"] by (auto simp: main_eq)

lemma new_calls:
  assumes "only P p"
  shows "list_all P (drop (length tr) (fst (p tr)))"
  using onlyD [OF assms, of tr] by auto

lemma TYPES_full:
  "ScanTypeConfig_get ''full'' = Inr p \<Longrightarrow> spider_max_depth p = 0 \<and> spider_max_duration p = 0"
  by (auto simp: ScanTypeConfig_get_def TYPES_def dict_index_def)

lemma TYPES_quick: "ScanTypeConfig_get ''quick'' = Inr p \<Longrightarrow> \<not> active_scan p"
  by (auto simp: ScanTypeConfig_get_def TYPES_def dict_index_def)

lemma is_simps [simp]:
  "is_spider_stop (SpiderStop s)" "\<not> is_spider_stop (SpiderStatus s)"
  "\<not> is_spider_stop (SpiderResults s)" "\<not> is_spider_stop (SpiderScan u)"
  "\<not> is_spider_stop TimeTime" "\<not> is_spider_stop (Sleep n)"
  "\<not> is_spider_stop (SpiderSetOptionMaxDepth d)"
  "is_set_depth (SpiderSetOptionMaxDepth d)" "\<not> is_set_depth (SpiderStatus s)"
  "\<not> is_set_depth (SpiderResults s)" "\<not> is_set_depth (SpiderScan u)"
  "\<not> is_set_depth TimeTime" "\<not> is_set_depth (Sleep n)" "\<not> is_set_depth (SpiderStop s)"
  by (simp_all add: is_spider_stop_def is_set_depth_def)

lemma no_depth_option:
  "spider_max_depth p = 0 \<Longrightarrow>
   list_all (\<lambda>c. \<not> is_set_depth c) (drop (length tr) (fst (run_spider_scan w config p fuel tr)))"
  by (rule new_calls, rule only_run_spider_scan) simp_all

lemma no_stop_request:
  "spider_max_duration p = 0 \<Longrightarrow>
   list_all (\<lambda>c. \<not> is_spider_stop c) (drop (length tr) (fst (run_spider_scan w config p fuel tr)))"
  by (rule new_calls, rule only_run_spider_scan) simp_all

lemma full_scan_unlimited:
  assumes "ScanConfig_init getenv = Inr config" "scan_type config = ''full''"
  shows "list_all (\<lambda>c. \<not> is_set_depth c \<and> \<not> is_spider_stop c) (fst (main getenv w fuel))"
proof (rule main_calls, rule only_main_try)
  fix config' p
  assume "ScanConfig_init getenv = Inr config'" "ScanTypeConfig_get (scan_type config') = Inr p"
  with assms have "ScanTypeConfig_get ''full'' = Inr p" by simp
  from TYPES_full [OF this]
  show "(\<not> is_set_depth (VersionRequest (zap_host config') (zap_port config') 5) \<and>
      \<not> is_spider_stop (VersionRequest (zap_host config') (zap_port config') 5)) \<and>
     (\<not> is_set_depth (Sleep 2) \<and> \<not> is_spider_stop (Sleep 2)) \<and>
     (\<not> is_set_depth (Urlopen (target_url config')) \<and>
      \<not> is_spider_stop (Urlopen (target_url config'))) \<and>
     (0 < spider_max_depth p \<longrightarrow>
      \<not> is_set_depth (SpiderSetOptionMaxDepth (spider_max_depth p)) \<and>
      \<not> is_spider_stop (SpiderSetOptionMaxDepth (spider_max_depth p))) \<and>
     (\<not> is_set_depth (SpiderScan (target_url config')) \<and>
      \<not> is_spider_stop (SpiderScan (target_url config'))) \<and>
     (\<not> is_set_depth TimeTime \<and> \<not> is_spider_stop TimeTime) \<and>
     (\<forall>sid. \<not> is_set_depth (SpiderStatus sid) \<and> \<not> is_spider_stop (SpiderStatus sid)) \<and>
     (\<forall>sid. \<not> is_set_depth (SpiderResults sid) \<and> \<not> is_spider_stop (SpiderResults sid)) \<and>
     (0 < spider_max_duration p \<longrightarrow>
      (\<forall>sid. \<not> is_set_depth (SpiderStop sid) \<and> \<not> is_spider_stop (SpiderStop sid))) \<and>
     (active_scan p \<longrightarrow>
      (\<not> is_set_depth (AscanScan (target_url config')) \<and>
       \<not> is_spider_stop (AscanScan (target_url config'))) \<and>
      (\<forall>sid. \<not> is_set_depth (AscanStatus sid) \<and> \<not> is_spider_stop (AscanStatus sid)) \<and>
      \<not> is_set_depth (Sleep 5) \<and> \<not> is_spider_stop (Sleep 5)) \<and>
     (\<not> is_set_depth (CoreAlerts (target_url config')) \<and>
      \<not> is_spider_stop (CoreAlerts (target_url config'))) \<and>
     (\<not> is_set_depth (Mkdir (report_dir config')) \<and>
      \<not> is_spider_stop (Mkdir (report_dir config'))) \<and>
     (\<not> is_set_depth DatetimeNow \<and> \<not> is_spider_stop DatetimeNow) \<and>
     (\<not> is_set_depth CoreHtmlreport \<and> \<not> is_spider_stop CoreHtmlreport) \<and>
     (\<forall>f x. \<not> is_set_depth (WriteFile (report_dir config') f x) \<and>
            \<not> is_spider_stop (WriteFile (report_dir config') f x))"
    by (simp add: is_set_depth_def is_spider_stop_def)
qed

lemma quick_scan_no_ascan:
  assumes "ScanConfig_init getenv = Inr config" "scan_type config = ''quick''"
  shows "list_all (\<lambda>c. \<not> is_ascan c) (fst (main getenv w fuel))"
proof (rule main_calls, rule only_main_try)
  fix config' p
  assume "ScanConfig_init getenv = Inr config'" "ScanTypeConfig_get (scan_type config') = Inr p"
  with assms have "ScanTypeConfig_get ''quick'' = Inr p" by simp
  from TYPES_quick [OF this]
  show "\<not> is_ascan (VersionRequest (zap_host config') (zap_port config') 5) \<and>
     \<not> is_ascan (Sleep 2) \<and> \<not> is_ascan (Urlopen (target_url config')) \<and>
     (0 < spider_max_depth p \<longrightarrow> \<not> is_ascan (SpiderSetOptionMaxDepth (spider_max_depth p))) \<and>
     \<not> is_ascan (SpiderScan (target_url config')) \<and> \<not> is_ascan TimeTime \<and>
     (\<forall>sid. \<not> is_ascan (SpiderStatus sid)) \<and> (\<forall>sid. \<not> is_ascan (SpiderResults sid)) \<and>
     (0 < spider_max_duration p \<longrightarrow> (\<forall>sid. \<not> is_ascan (SpiderStop sid))) \<and>
     (active_scan p \<longrightarrow>
      \<not> is_ascan (AscanScan (target_url config')) \<and> (\<forall>sid. \<not> is_ascan (AscanStatus sid)) \<and>
      \<not> is_ascan (Sleep 5)) \<and>
     \<not> is_ascan (CoreAlerts (target_url config')) \<and> \<not> is_ascan (Mkdir (report_dir config')) \<and>
     \<not> is_ascan DatetimeNow \<and> \<not> is_ascan CoreHtmlreport \<and>
     (\<forall>f x. \<not> is_ascan (WriteFile (report_dir config') f x))"
    by (simp add: is_ascan_def)
qed





lemma run_spider_scan_Returned:
  assumes "run_spider_scan w config p fuel tr = (tr', Returned urls)"
  shows "\<exists>pre sid. tr' = pre @ [SpiderResults sid] \<and> spider_results w pre = Reply urls"
  using assms [unfolded run_spider_scan_def]
proof (cases rule: pbind_E)
  case (go u t1)
  from go(2) show ?thesis
  proof (cases rule: pbind_E)
    case (go sid t2)
    from go(2) show ?thesis
    proof (cases rule: pbind_E)
      case (go start t3)
      from go(2) show ?thesis
      proof (cases rule: pbind_E)
        case (go u4 t4)
        from go(2) show ?thesis by (cases rule: perform_E) auto
      qed auto
    qed auto
  qed auto
qed auto

lemma config_quick:
  "ScanConfig_init (env_of ''quick'') = Inr (default_config \<lparr> scan_type := ''quick'' \<rparr>)"
  by (simp add: config_defs default_config_def)

lemma config_full:
  "ScanConfig_init (env_of ''full'') = Inr (default_config \<lparr> scan_type := ''full'' \<rparr>)"
  by (simp add: config_defs default_config_def)

lemma int_40: "py_int ''40'' = Inr 40"
  by (simp add: config_defs)

lemma profile_quick: "ScanTypeConfig_get ''quick'' = Inr quick_profile"
  by (simp add: ScanTypeConfig_get_def TYPES_def dict_index_def quick_profile_def)

lemma profile_full: "ScanTypeConfig_get ''full'' = Inr full_profile"
  by (simp add: ScanTypeConfig_get_def TYPES_def dict_index_def full_profile_def)

lemma wait_quiet:
  "wait_for_zap quiet_world default_config [] =
     ([VersionRequest ''localhost'' 8080 5], Returned True)"
  by (simp add: prog_defs wait_for_zap_def attempt_def quiet_world_def default_config_def
      numeral_nat)

lemma wait_proxy:
  "wait_for_zap proxy_world default_config [] =
     (concat (replicate 30 [VersionRequest ''localhost'' 8080 5, Sleep 2]), Returned False)"
  by (simp add: prog_defs wait_for_zap_def attempt_def quiet_world_def proxy_world_def
      default_config_def numeral_nat ValueError_def)

lemma run_full_slow:
  "main (env_of ''full'') slow_world 2 =
     ([VersionRequest ''localhost'' 8080 5, Urlopen ''http://target.example'', Sleep 2,
       SpiderScan ''http://target.example'', TimeTime,
       SpiderStatus ''0'', SpiderStatus ''0'', TimeTime, Sleep 2,
       SpiderStatus ''0'', SpiderStatus ''0'', TimeTime, Sleep 2], StillRunning)"
  by (simp add: config_full int_40 int_100 prog_defs run_defs quiet_world_def slow_world_def
      default_config_def)

lemma run_quick_slow:
  "main (env_of ''quick'') slow_world 5 =
     ([VersionRequest ''localhost'' 8080 5, Urlopen ''http://target.example'', Sleep 2,
       SpiderSetOptionMaxDepth 1, SpiderScan ''http://target.example'', TimeTime,
       SpiderStatus ''0'', SpiderStatus ''0'', TimeTime, SpiderStop ''0'', SpiderResults ''0'',
       CoreAlerts ''http://target.example'', Mkdir ''./reports'', DatetimeNow, CoreHtmlreport,
       WriteFile ''./reports'' ''zap_report_20240101_120000.html'' (HtmlFile ''<html></html>''),
       WriteFile ''./reports'' ''zap_report_20240101_120000.json'' (AlertsFile sample_alerts),
       WriteFile ''./reports'' ''zap_summary_20240101_120000.json''
         (SummaryFile (sample_summary \<lparr> summary_scan_type := ''quick'' \<rparr>))], Exit 0)"
  by (simp add: config_quick int_40 int_100 prog_defs run_defs quiet_world_def slow_world_def
      default_config_def sample_alerts_def sample_summary_def)




lemma quick_scan_gate:
  assumes cfg: "ScanConfig_init getenv = Inr config" and q: "scan_type config = ''quick''"
    and ex: "snd (main getenv w fuel) = Exit code" and code: "code = 0 \<or> code = 1"
  shows "\<exists>pre sid rest alerts rc checks.
           fst (main getenv w fuel) =
             pre @ SpiderResults sid # CoreAlerts (target_url config) # rest \<and>
           core_alerts w (pre @ [SpiderResults sid]) = Reply alerts \<and>
           analyze_alerts alerts = Inr rc \<and>
           check_thresholds rc config = Inr (code = 0, checks)"
proof -
  from main_exit_gate [OF ex code] obtain config' p t1 t2 t3 urls t4 alerts rc checks rest where
    f: "ScanConfig_init getenv = Inr config'"
      "ScanTypeConfig_get (scan_type config') = Inr p"
      "run_spider_scan w config' p fuel t2 = (t3, Returned urls)"
      "run_active_scan w config' p fuel t3 = (t4, Returned ())"
      "fst (main getenv w fuel) = t4 @ CoreAlerts (target_url config') # rest"
      "core_alerts w t4 = Reply alerts"
      "analyze_alerts alerts = Inr rc"
      "check_thresholds rc config' = Inr (code = 0, checks)"
    by blast
  from f(1) cfg have [simp]: "config' = config" by simp
  from f(2) q have "\<not> active_scan p" by (simp add: TYPES_quick)
  with f(4) have t4: "t4 = t3" by (simp add: run_active_scan_def preturn_def)
  from run_spider_scan_Returned [OF f(3)] obtain pre sid
    where "t3 = pre @ [SpiderResults sid]" by blast
  with t4 f show ?thesis
    by (intro exI [of _ pre] exI [of _ sid] exI [of _ rest] exI [of _ alerts] exI [of _ rc]
        exI [of _ checks]) simp
qed

text \<open>
  Claim C6, as stated, fails twice. Behind a port that answers HTTP 200 with a body that
  is no JSON object, the first response has status 200 and yet the poller does not
  succeed: it makes all 30 attempts and returns \<^verbatim>\<open>False\<close>. And when the scanner answers
  with its version, what \<^verbatim>\<open>wait_for_zap\<close> returns is \<^verbatim>\<open>True\<close>; the version string
  is only printed.
\<close>

theorem readiness_200_not_enough:
  "requests_get proxy_world [] = Reply \<lparr> status_code = 200, json = NotJsonObject \<rparr> \<and>
   wait_for_zap proxy_world default_config [] =
     (concat (replicate 30 [VersionRequest ''localhost'' 8080 5, Sleep 2]), Returned False) \<and>
   requests_get quiet_world [] =
     Reply \<lparr> status_code = 200, json = JsonObject [(''version'', ''2.14.0'')] \<rparr> \<and>
   wait_for_zap quiet_world default_config [] =
     ([VersionRequest ''localhost'' 8080 5], Returned True)"
  by (simp add: wait_proxy wait_quiet) (simp add: proxy_world_def quiet_world_def)

text \<open>
  Claim C6, amended. \<^verbatim>\<open>wait_for_zap\<close> makes at most 30 version requests, each with a
  5-second timeout, and sleeps 2 seconds after every attempt that did not succeed. An
  attempt answered with HTTP 200 and a JSON object ends the loop at once with
  \<^verbatim>\<open>True\<close>; this is the only way to return \<^verbatim>\<open>True\<close>. A request that raises is
  swallowed and the next attempt follows. Returning \<^verbatim>\<open>False\<close> means all 30 attempts
  and 30 sleeps were made; it is a value, not an exception, and \<^verbatim>\<open>main\<close> then exits
  with code 2 without any further call. The only exceptions that leave the poller are
  the user's interrupt and one raised by \<^verbatim>\<open>time.sleep\<close> itself.
\<close>

theorem readiness_poller:
  "(\<exists>evs. fst (wait_for_zap w config tr) = tr @ evs \<and>
       list_all (\<lambda>c. c = version_request config \<or> c = Sleep 2) evs \<and>
       length (filter is_version_request evs) \<le> 30) \<and>
   (\<forall>n response d. requests_get w tr = Reply response \<and> status_code response = 200 \<and>
       json response = JsonObject d \<longrightarrow>
       wait_loop w config (Suc n) tr = (tr @ [version_request config], Returned True)) \<and>
   (\<forall>n cls. requests_get w tr = Fails cls \<and>
       sleep w (tr @ [version_request config]) = Reply () \<longrightarrow>
       wait_loop w config (Suc n) tr =
       wait_loop w config n (tr @ [version_request config, Sleep 2])) \<and>
   (snd (wait_for_zap w config tr) = Returned True \<longrightarrow>
      (\<exists>pre response d. fst (wait_for_zap w config tr) = pre @ [version_request config] \<and>
         requests_get w pre = Reply response \<and> status_code response = 200 \<and>
         json response = JsonObject d)) \<and>
   (snd (wait_for_zap w config tr) = Returned False \<longrightarrow>
      fst (wait_for_zap w config tr) =
      tr @ concat (replicate 30 [version_request config, Sleep 2])) \<and>
   (snd (wait_for_zap w config tr) = Returned True \<or>
    snd (wait_for_zap w config tr) = Returned False \<or>
    snd (wait_for_zap w config tr) = Raised KeyboardInterrupt \<or>
    (\<exists>pre cls. fst (wait_for_zap w config tr) = pre @ [Sleep 2] \<and> sleep w pre = Fails cls \<and>
       snd (wait_for_zap w config tr) = Raised (Exception cls))) \<and>
   (\<forall>getenv fuel. ScanConfig_init getenv = Inr config \<and>
       snd (wait_for_zap w config []) = Returned False \<longrightarrow>
       main getenv w fuel = (fst (wait_for_zap w config []), Exit 2))"
proof -
  have 7: "main getenv w fuel = (fst (wait_for_zap w config []), Exit 2)"
    if "ScanConfig_init getenv = Inr config \<and> snd (wait_for_zap w config []) = Returned False"
    for getenv fuel
  proof -
    from that have "wait_for_zap w config [] = (fst (wait_for_zap w config []), Returned False)"
      by (metis prod.collapse)
    with that main_unavailable [of getenv config w _ fuel] show ?thesis by blast
  qed
  show ?thesis
    unfolding wait_for_zap_def
    using wait_loop_calls [of w config 30 tr] wait_loop_success [of w tr _ _ config]
      wait_loop_swallow [of w tr _ config] wait_loop_ready [of w config 30 tr]
      wait_loop_exhausted [of w config 30 tr] wait_loop_result [of w config 30 tr]
      7 [unfolded wait_for_zap_def]
    by (intro conjI allI impI) blast+
qed

theorem readiness_poller_witness:
  "wait_for_zap quiet_world default_config [] =
     ([VersionRequest ''localhost'' 8080 5], Returned True) \<and>
   wait_for_zap flaky_world default_config [] =
     ([VersionRequest ''localhost'' 8080 5, Sleep 2, VersionRequest ''localhost'' 8080 5],
      Returned True) \<and>
   (\<exists>pre response d.
      fst (wait_for_zap flaky_world default_config []) =
        pre @ [VersionRequest ''localhost'' 8080 5] \<and>
      requests_get flaky_world pre = Reply response \<and> status_code response = 200 \<and>
      json response = JsonObject d) \<and>
   fst (wait_for_zap down_world default_config []) =
     concat (replicate 30 [VersionRequest ''localhost'' 8080 5, Sleep 2]) \<and>
   main (env_of ''standard'') down_world 5 =
     (fst (wait_for_zap down_world default_config []), Exit 2)"
proof -
  have v: "version_request default_config = VersionRequest ''localhost'' 8080 5"
    by (simp add: version_request_def default_config_def)
  have c: "ScanConfig_init (env_of ''standard'') = Inr default_config"
    by (simp add: config_standard default_config_def)
  note q = readiness_poller [of quiet_world default_config "[]", unfolded v]
  note f0 = readiness_poller [of flaky_world default_config "[]", unfolded v]
  note f1 = readiness_poller [of flaky_world default_config
      "[VersionRequest ''localhost'' 8080 5, Sleep 2]", unfolded v]
  note d = readiness_poller [of down_world default_config "[]", unfolded v]
  have 1: "wait_for_zap quiet_world default_config [] =
     ([VersionRequest ''localhost'' 8080 5], Returned True)"
    using q by (simp add: wait_for_zap_def numeral_nat quiet_world_def)
  have "wait_loop flaky_world default_config 30 [] =
        wait_loop flaky_world default_config 29 [VersionRequest ''localhost'' 8080 5, Sleep 2]"
    using f0 by (simp add: numeral_nat flaky_world_def quiet_world_def)
  moreover have "wait_loop flaky_world default_config 29
        [VersionRequest ''localhost'' 8080 5, Sleep 2] =
      ([VersionRequest ''localhost'' 8080 5, Sleep 2, VersionRequest ''localhost'' 8080 5],
       Returned True)"
    using f1 by (simp add: numeral_nat flaky_world_def quiet_world_def)
  ultimately have 2: "wait_for_zap flaky_world default_config [] =
     ([VersionRequest ''localhost'' 8080 5, Sleep 2, VersionRequest ''localhost'' 8080 5],
      Returned True)"
    by (simp add: wait_for_zap_def)
  have 3: "\<exists>pre response d.
      fst (wait_for_zap flaky_world default_config []) =
        pre @ [VersionRequest ''localhost'' 8080 5] \<and>
      requests_get flaky_world pre = Reply response \<and> status_code response = 200 \<and>
      json response = JsonObject d"
    using f0 by (simp add: 2)
  have 4: "fst (wait_for_zap down_world default_config []) =
     concat (replicate 30 [VersionRequest ''localhost'' 8080 5, Sleep 2])"
    using d wait_down [of default_config] by simp
  have 5: "main (env_of ''standard'') down_world 5 =
     (fst (wait_for_zap down_world default_config []), Exit 2)"
    using d wait_down [of default_config] c by blast
  from 1 2 3 4 5 show ?thesis by blast
qed

text \<open>
  Claim C7. A zero in the profile switches the limit off. With \<^verbatim>\<open>spider_max_depth\<close> 0
  the crawl never sets the depth option; with \<^verbatim>\<open>spider_max_duration\<close> 0 it never
  sends a stop request, whatever the scanner and the clock answer and however long the
  loop has been polling (for every number of iterations allowed). The profile of scan
  type \<^verbatim>\<open>full\<close> has both at 0, so a whole run of \<^verbatim>\<open>main\<close> with this scan type
  makes neither call.
\<close>

theorem zero_disables_crawl_limits:
  "(spider_max_depth p = 0 \<longrightarrow>
      list_all (\<lambda>c. \<not> is_set_depth c)
        (drop (length tr) (fst (run_spider_scan w config p fuel tr)))) \<and>
   (spider_max_duration p = 0 \<longrightarrow>
      list_all (\<lambda>c. \<not> is_spider_stop c)
        (drop (length tr) (fst (run_spider_scan w config p fuel tr)))) \<and>
   (\<exists>full. ScanTypeConfig_get ''full'' = Inr full \<and>
      spider_max_depth full = 0 \<and> spider_max_duration full = 0) \<and>
   (ScanConfig_init getenv = Inr config \<and> scan_type config = ''full'' \<longrightarrow>
      list_all (\<lambda>c. \<not> is_set_depth c \<and> \<not> is_spider_stop c) (fst (main getenv w fuel)))"
  using no_depth_option [of p tr w config fuel] no_stop_request [of p tr w config fuel]
    profile_full TYPES_full [OF profile_full] full_scan_unlimited [of getenv config w fuel]
  by blast

theorem zero_disables_crawl_limits_witness:
  "list_all (\<lambda>c. \<not> is_set_depth c) (fst (run_spider_scan slow_world default_config full_profile 2 [])) \<and>
   list_all (\<lambda>c. \<not> is_spider_stop c) (fst (run_spider_scan slow_world default_config full_profile 2 [])) \<and>
   list_all (\<lambda>c. \<not> is_set_depth c \<and> \<not> is_spider_stop c) (fst (main (env_of ''full'') slow_world 2)) \<and>
   main (env_of ''full'') slow_world 2 =
     ([VersionRequest ''localhost'' 8080 5, Urlopen ''http://target.example'', Sleep 2,
       SpiderScan ''http://target.example'', TimeTime,
       SpiderStatus ''0'', SpiderStatus ''0'', TimeTime, Sleep 2,
       SpiderStatus ''0'', SpiderStatus ''0'', TimeTime, Sleep 2], StillRunning)"
  using zero_disables_crawl_limits [of full_profile "[]" slow_world default_config 2]
    zero_disables_crawl_limits [of full_profile "[]" slow_world
      "default_config \<lparr> scan_type := ''full'' \<rparr>" 2 "env_of ''full''"]
    config_full run_full_slow
  by (simp add: full_profile_def)


lemma rounds_0 [simp]: "rounds sid 0 = []"
  by (simp add: rounds_def)

































text \<open>
  Claim C9. The profile of scan type \<^verbatim>\<open>quick\<close> has the active scan off, and with the
  active scan off \<^verbatim>\<open>run_active_scan\<close> returns at once without a single call. So a
  run of \<^verbatim>\<open>main\<close> with scan type \<^verbatim>\<open>quick\<close> never starts or polls an active scan;
  it asks for the alerts right after the crawl's results, and when it ends with code 0
  or 1 this is the gate's answer on these alerts.
\<close>

theorem quick_skips_active_scan:
  "(\<exists>quick. ScanTypeConfig_get ''quick'' = Inr quick \<and> \<not> active_scan quick) \<and>
   (\<not> active_scan p \<longrightarrow> run_active_scan w config p fuel tr = (tr, Returned ())) \<and>
   (ScanConfig_init getenv = Inr config \<and> scan_type config = ''quick'' \<longrightarrow>
      list_all (\<lambda>c. \<not> is_ascan c) (fst (main getenv w fuel))) \<and>
   (ScanConfig_init getenv = Inr config \<and> scan_type config = ''quick'' \<and>
    snd (main getenv w fuel) = Exit code \<and> (code = 0 \<or> code = 1) \<longrightarrow>
      (\<exists>pre sid rest alerts rc checks.
         fst (main getenv w fuel) =
           pre @ SpiderResults sid # CoreAlerts (target_url config) # rest \<and>
         core_alerts w (pre @ [SpiderResults sid]) = Reply alerts \<and>
         analyze_alerts alerts = Inr rc \<and>
         check_thresholds rc config = Inr (code = 0, checks)))"
proof -
  have "\<not> active_scan p \<Longrightarrow> run_active_scan w config p fuel tr = (tr, Returned ())"
    by (simp add: run_active_scan_def preturn_def)
  with profile_quick TYPES_quick [OF profile_quick]
    quick_scan_no_ascan [of getenv config w fuel]
    quick_scan_gate [of getenv config w fuel code]
  show ?thesis by blast
qed

lemma run_quick_risky: "snd (main (env_of ''quick'') risky_world 1) = Exit 1"
  by (simp add: config_quick int_100 prog_defs run_defs quiet_world_def risky_world_def
      default_config_def sample_alerts_def high_alert_def)

theorem quick_skips_active_scan_witness:
  "run_active_scan quiet_world default_config quick_profile 0 pre_crawl =
     (pre_crawl, Returned ()) \<and>
   list_all (\<lambda>c. \<not> is_ascan c) (fst (main (env_of ''quick'') slow_world 5)) \<and>
   snd (main (env_of ''quick'') slow_world 5) = Exit 0 \<and>
   (\<exists>pre sid rest alerts rc checks.
      fst (main (env_of ''quick'') slow_world 5) =
        pre @ SpiderResults sid # CoreAlerts ''http://target.example'' # rest \<and>
      core_alerts slow_world (pre @ [SpiderResults sid]) = Reply alerts \<and>
      analyze_alerts alerts = Inr rc \<and>
      check_thresholds rc (default_config \<lparr> scan_type := ''quick'' \<rparr>) = Inr (True, checks)) \<and>
   snd (main (env_of ''quick'') risky_world 1) = Exit 1 \<and>
   (\<exists>pre sid rest alerts rc checks.
      fst (main (env_of ''quick'') risky_world 1) =
        pre @ SpiderResults sid # CoreAlerts ''http://target.example'' # rest \<and>
      core_alerts risky_world (pre @ [SpiderResults sid]) = Reply alerts \<and>
      analyze_alerts alerts = Inr rc \<and>
      check_thresholds rc (default_config \<lparr> scan_type := ''quick'' \<rparr>) = Inr (False, checks))"
proof -
  let ?config = "default_config \<lparr> scan_type := ''quick'' \<rparr>"
  have u: "target_url ?config = ''http://target.example''" "scan_type ?config = ''quick''"
    by (simp_all add: default_config_def)
  have e0: "snd (main (env_of ''quick'') slow_world 5) = Exit 0"
    by (simp add: run_quick_slow)
  have 1: "run_active_scan quiet_world default_config quick_profile 0 pre_crawl =
     (pre_crawl, Returned ())"
    using quick_skips_active_scan [where p = quick_profile and w = quiet_world
        and config = default_config and fuel = 0 and tr = pre_crawl]
    by (simp add: quick_profile_def)
  have 2: "list_all (\<lambda>c. \<not> is_ascan c) (fst (main (env_of ''quick'') slow_world 5))"
    using quick_skips_active_scan [where w = slow_world and config = ?config and fuel = 5
        and getenv = "env_of ''quick''"]
      config_quick u by blast
  have 3: "\<exists>pre sid rest alerts rc checks.
      fst (main (env_of ''quick'') slow_world 5) =
        pre @ SpiderResults sid # CoreAlerts ''http://target.example'' # rest \<and>
      core_alerts slow_world (pre @ [SpiderResults sid]) = Reply alerts \<and>
      analyze_alerts alerts = Inr rc \<and>
      check_thresholds rc ?config = Inr (True, checks)"
    using quick_skips_active_scan [where w = slow_world and config = ?config and fuel = 5
        and getenv = "env_of ''quick''" and code = 0]
      config_quick u e0 by simp
  have 4: "\<exists>pre sid rest alerts rc checks.
      fst (main (env_of ''quick'') risky_world 1) =
        pre @ SpiderResults sid # CoreAlerts ''http://target.example'' # rest \<and>
      core_alerts risky_world (pre @ [SpiderResults sid]) = Reply alerts \<and>
      analyze_alerts alerts = Inr rc \<and>
      check_thresholds rc ?config = Inr (False, checks)"
    using quick_skips_active_scan [where w = risky_world and config = ?config and fuel = 1
        and getenv = "env_of ''quick''" and code = 1]
      config_quick u run_quick_risky by simp
  from 1 2 3 4 e0 run_quick_risky show ?thesis by blast
qed

end
